theory Spec2Isabelle
  imports Complex_Main
begin

section \<open>Python values, dictionaries and exceptions\<close>

text \<open>
  The backend (\<^verbatim>\<open>backend/app.py\<close>, \<^verbatim>\<open>backend/edge_processor.py\<close>) handles
  untyped JSON messages. A JSON value is a \<open>jval\<close>; a Python \<^verbatim>\<open>dict\<close> with string
  keys is an association list in insertion order (keys unique), read with \<open>map_of\<close>.
  A number is a real: \<open>JNum r\<close> is a finite JSON number, an int or a double. The
  non-finite values \<^verbatim>\<open>NaN\<close> and \<^verbatim>\<open>Infinity\<close>, which \<^verbatim>\<open>json.loads\<close> also reads, have
  no value here. Arithmetic is exact except where rounding decides whether an exception
  is raised: in the haversine term of the three distance functions, which is computed
  with the rounded operations of the environment below.
\<close>

datatype jval =
    JNone
  | JBool bool
  | JNum real
  | JStr string
  | JList "jval list"
  | JDict "(string \<times> jval) list"

type_synonym pydict = "(string \<times> jval) list"

datatype error = TypeError | ValueError | KeyError | RuntimeError | OverflowError

text \<open>\<^verbatim>\<open>d.get(k, default)\<close>; \<^verbatim>\<open>d.get(k)\<close> is \<open>get d k JNone\<close>.\<close>

definition get :: "pydict \<Rightarrow> string \<Rightarrow> jval \<Rightarrow> jval" where
  "get d k dflt = (case map_of d k of None \<Rightarrow> dflt | Some v \<Rightarrow> v)"

text \<open>\<^verbatim>\<open>d[k]\<close> raises \<^verbatim>\<open>KeyError\<close> on a missing key.\<close>

definition getitem :: "pydict \<Rightarrow> string \<Rightarrow> error + jval" where
  "getitem d k = (case map_of d k of None \<Rightarrow> Inl KeyError | Some v \<Rightarrow> Inr v)"

text \<open>\<^verbatim>\<open>d[k] = v\<close>: an existing key keeps its place, a new key goes last.\<close>

fun setitem :: "pydict \<Rightarrow> string \<Rightarrow> jval \<Rightarrow> pydict" where
  "setitem [] k v = [(k, v)]"
| "setitem (p # ps) k v = (if fst p = k then (k, v) # ps else p # setitem ps k v)"

text \<open>Truth value of a Python object, as \<^verbatim>\<open>if x\<close>, \<^verbatim>\<open>x or y\<close> and \<^verbatim>\<open>not x\<close> test it.\<close>

fun truthy :: "jval \<Rightarrow> bool" where
  "truthy JNone = False"
| "truthy (JBool b) = b"
| "truthy (JNum r) = (r \<noteq> 0)"
| "truthy (JStr s) = (s \<noteq> [])"
| "truthy (JList l) = (l \<noteq> [])"
| "truthy (JDict d) = (d \<noteq> [])"

text \<open>
  A value used as the key of one of the backend's dictionaries: lists and dicts are
  unhashable (\<^verbatim>\<open>TypeError\<close>), and \<^verbatim>\<open>True\<close>/\<^verbatim>\<open>False\<close> are the keys \<open>1\<close>/\<open>0\<close>.
\<close>

fun dict_key :: "jval \<Rightarrow> error + jval" where
  "dict_key (JList l) = Inl TypeError"
| "dict_key (JDict d) = Inl TypeError"
| "dict_key (JBool b) = Inr (JNum (if b then 1 else 0))"
| "dict_key v = Inr v"

text \<open>
  What the handlers take from outside the repository: the clock, Python's \<^verbatim>\<open>float\<close> on a
  string, string formatting, \<^verbatim>\<open>json.dumps\<close>, scikit-learn's isolation forest, whether
  the industrial protocol manager has been initialised and an asyncio loop is running,
  and the floating-point unit: the rounding of an exact result to a double, and the sine
  and cosine of the C library. One call of a handler reads the clock once.
\<close>

record env =
  utcnow :: string  \<comment> \<open>\<^verbatim>\<open>datetime.utcnow().isoformat() + "Z"\<close>\<close>
  date_after :: "nat \<Rightarrow> string"  \<comment> \<open>\<^verbatim>\<open>(datetime.utcnow() + timedelta(days=n)).isoformat() + "Z"\<close>\<close>
  str_float :: "string \<Rightarrow> real option"  \<comment> \<open>\<^verbatim>\<open>float(s)\<close> for a string, \<open>None\<close> for \<^verbatim>\<open>ValueError\<close>\<close>
  str_of :: "jval \<Rightarrow> string"  \<comment> \<open>\<^verbatim>\<open>str(v)\<close> as an f-string interpolates it\<close>
  format_2f :: "real \<Rightarrow> string"  \<comment> \<open>\<^verbatim>\<open>f"{x:.2f}"\<close>\<close>
  dumps_len :: "pydict \<Rightarrow> nat"  \<comment> \<open>\<^verbatim>\<open>len(json.dumps(d))\<close>\<close>
  forest :: "real list list \<Rightarrow> real list \<Rightarrow> bool"
    \<comment> \<open>\<^verbatim>\<open>IsolationForest(contamination=0.1, random_state=42)\<close> fitted on the rows,
        then \<^verbatim>\<open>predict([features])[0] == -1\<close>\<close>
  industrial_manager :: bool  \<comment> \<open>\<^verbatim>\<open>industrial_manager\<close> is not \<^verbatim>\<open>None\<close>\<close>
  loop_running :: bool  \<comment> \<open>the calling thread has a running asyncio event loop\<close>
  fl :: "real \<Rightarrow> real"  \<comment> \<open>the double that an exact result is rounded to\<close>
  fsin :: "real \<Rightarrow> real"  \<comment> \<open>\<^verbatim>\<open>math.sin\<close> on a double\<close>
  fcos :: "real \<Rightarrow> real"  \<comment> \<open>\<^verbatim>\<open>math.cos\<close> on a double\<close>

text \<open>
  Every finite double is smaller in magnitude than \<open>2 ^ 1024 - 2 ^ 970\<close>; an int of at
  least that magnitude rounds beyond the largest double.
\<close>

definition double_limit :: real where
  "double_limit = 2 ^ 1024 - 2 ^ 970"

text \<open>
  \<^verbatim>\<open>float(v)\<close>: a number of at least that magnitude is an int that is too large
  (\<^verbatim>\<open>OverflowError\<close>); a string is parsed (\<^verbatim>\<open>ValueError\<close>); \<^verbatim>\<open>None\<close>, a list and a
  dict give \<^verbatim>\<open>TypeError\<close>.
\<close>

fun py_float :: "env \<Rightarrow> jval \<Rightarrow> error + real" where
  "py_float e (JNum r) = (if double_limit \<le> \<bar>r\<bar> then Inl OverflowError else Inr r)"
| "py_float e (JBool b) = Inr (if b then 1 else 0)"
| "py_float e (JStr s) = (case str_float e s of None \<Rightarrow> Inl ValueError | Some r \<Rightarrow> Inr r)"
| "py_float e v = Inl TypeError"

definition and_then :: "error + 'a \<Rightarrow> ('a \<Rightarrow> error + 'b) \<Rightarrow> error + 'b" where
  "and_then r f = (case r of Inl e \<Rightarrow> Inl e | Inr v \<Rightarrow> f v)"

text \<open>\<^verbatim>\<open>round(x, n)\<close>: to \<open>n\<close> decimals, a tie to the even neighbour.\<close>

definition py_round :: "real \<Rightarrow> nat \<Rightarrow> real" where
  "py_round x n =
     (let y = x * 10 ^ n; f = \<lfloor>y\<rfloor>; d = y - of_int f
      in of_int (if d < 1 / 2 then f else if 1 / 2 < d then f + 1
                 else if even f then f else f + 1) / 10 ^ n)"

text \<open>\<^verbatim>\<open>collections.deque(maxlen=n).append(x)\<close>: a full deque drops its oldest element.\<close>

definition deque_append :: "nat \<Rightarrow> 'a list \<Rightarrow> 'a \<Rightarrow> 'a list" where
  "deque_append maxlen dq x =
     (if length dq < maxlen then dq @ [x]
      else if maxlen = 0 then []
      else tl dq @ [x])"

text \<open>\<^verbatim>\<open>xs[-n:]\<close>.\<close>

definition last_n :: "nat \<Rightarrow> 'a list \<Rightarrow> 'a list" where
  "last_n n xs = drop (length xs - n) xs"

section \<open>Great-circle distance\<close>

text \<open>
  Rounded arithmetic: an operation on doubles gives the exact result rounded by \<open>fl\<close>.
  \<^verbatim>\<open>math.radians(x)\<close> multiplies by the constant \<^verbatim>\<open>pi / 180\<close>, itself
  computed in doubles.
\<close>

definition radians :: "env \<Rightarrow> real \<Rightarrow> real" where
  "radians e x = fl e (x * fl e (fl e pi / 180))"

text \<open>\<^verbatim>\<open>math.sqrt\<close> raises \<^verbatim>\<open>ValueError\<close> on a negative argument.\<close>

definition py_sqrt :: "real \<Rightarrow> error + real" where
  "py_sqrt x = (if x < 0 then Inl ValueError else Inr (sqrt x))"

text \<open>\<^verbatim>\<open>math.atan2(y, x)\<close>.\<close>

definition atan2 :: "real \<Rightarrow> real \<Rightarrow> real" where
  "atan2 y x =
     (if 0 < x then arctan (y / x)
      else if x < 0 then (if 0 \<le> y then arctan (y / x) + pi else arctan (y / x) - pi)
      else if 0 < y then pi / 2
      else if y < 0 then - (pi / 2)
      else 0)"

text \<open>
  \<^verbatim>\<open>calculate_distance\<close> of \<^verbatim>\<open>app.py\<close> (haversine, kilometres). The term \<open>a\<close> is
  computed in doubles, each operation rounded: it can come out above \<open>1\<close> for two
  nearly antipodal points, and then \<^verbatim>\<open>math.sqrt(1 - a)\<close> raises. A difference of
  coordinates beyond the double range is infinite, and \<^verbatim>\<open>math.sin\<close> raises on it. From
  \<open>a\<close> on the model is exact: the later roundings change neither a sign nor whether a
  call raises.
\<close>

definition calculate_distance :: "env \<Rightarrow> real \<Rightarrow> real \<Rightarrow> real \<Rightarrow> real \<Rightarrow> error + real" where
  "calculate_distance e lat1 lon1 lat2 lon2 =
     (let R = 6371;
          lat1_rad = radians e lat1;
          lat2_rad = radians e lat2
      in if double_limit \<le> \<bar>lat2 - lat1\<bar> \<or> double_limit \<le> \<bar>lon2 - lon1\<bar> then Inl ValueError
         else
           (let delta_lat = radians e (fl e (lat2 - lat1));
                delta_lon = radians e (fl e (lon2 - lon1));
                a = fl e (fl e ((fsin e (fl e (delta_lat / 2)))\<^sup>2)
                          + fl e (fl e (fcos e lat1_rad * fcos e lat2_rad)
                                  * fl e ((fsin e (fl e (delta_lon / 2)))\<^sup>2)))
            in and_then (py_sqrt a) (\<lambda>sa.
               and_then (py_sqrt (1 - a)) (\<lambda>sb.
               Inr (R * (2 * atan2 sa sb))))))"

text \<open>A floating-point unit without rounding error.\<close>

definition exact_arithmetic :: "env \<Rightarrow> bool" where
  "exact_arithmetic e = (fl e = (\<lambda>x. x) \<and> fsin e = sin \<and> fcos e = cos)"

section \<open>The backend's stores\<close>

text \<open>
  A geofence configuration is built in one place (\<^verbatim>\<open>device_geofence\<close>, POST) with exactly
  these keys, the three numbers already converted by \<^verbatim>\<open>float\<close>.
\<close>

record geofence =
  center_lat :: real
  center_lon :: real
  radius_km :: real
  alert_on_breach :: jval
  alert_on_return :: jval
  name :: jval
  created_at :: string

text \<open>The two objects of \<^verbatim>\<open>edge_processor.py\<close>.\<close>

record edge_intelligence =
  anomaly_models :: "jval set"  \<comment> \<open>the devices that have a model\<close>
  pattern_cache :: "jval \<rightharpoonup> real list list"
  compression_enabled :: bool

record predictive =
  pm_device_health_scores :: "jval \<rightharpoonup> real"
  pm_maintenance_predictions :: "jval \<rightharpoonup> pydict"

text \<open>The module-level stores of \<^verbatim>\<open>app.py\<close>, keyed by device id.\<close>

record backend =
  assets :: "jval \<rightharpoonup> pydict"
  telemetry :: "jval \<rightharpoonup> pydict list"  \<comment> \<open>\<^verbatim>\<open>defaultdict(lambda: deque(maxlen=500))\<close>\<close>
  alerts :: "pydict list"  \<comment> \<open>\<^verbatim>\<open>deque(maxlen=1000)\<close>\<close>
  device_registry :: "jval \<rightharpoonup> pydict"
  device_commands :: "jval \<rightharpoonup> pydict list"
  geofences :: "jval \<rightharpoonup> geofence"
  device_geofence_state :: "jval \<rightharpoonup> string"
  edge_insights :: "jval \<rightharpoonup> pydict"
  maintenance_predictions :: "jval \<rightharpoonup> pydict"
  edge_processor :: edge_intelligence
  predictive_maintenance :: predictive

section \<open>Geofence engine\<close>

definition geofence_event :: "env \<Rightarrow> string \<Rightarrow> jval \<Rightarrow> string \<Rightarrow> string \<Rightarrow> real \<Rightarrow> geofence \<Rightarrow> pydict" where
  "geofence_event e ty device_id previous_state current_state distance g =
     [(''type'', JStr ty),
      (''device_id'', device_id),
      (''previous_state'', JStr previous_state),
      (''current_state'', JStr current_state),
      (''distance_from_center_km'', JNum (py_round distance 2)),
      (''geofence_name'', name g),
      (''timestamp'', JStr (utcnow e))]"

text \<open>
  \<^verbatim>\<open>check_geofence_breach\<close>: the event (or \<^verbatim>\<open>None\<close>) or the exception raised, and the
  stores afterwards.
\<close>

definition check_geofence_breach ::
  "env \<Rightarrow> jval \<Rightarrow> real \<Rightarrow> real \<Rightarrow> backend \<Rightarrow> (error + pydict option) \<times> backend" where
  "check_geofence_breach e device_id current_lat current_lon st =
     (case dict_key device_id of
        Inl err \<Rightarrow> (Inl err, st)
      | Inr k \<Rightarrow>
     (case geofences st k of
        None \<Rightarrow> (Inr None, st)
      | Some g \<Rightarrow>
     (case calculate_distance e (center_lat g) (center_lon g) current_lat current_lon of
        Inl err \<Rightarrow> (Inl err, st)
      | Inr distance \<Rightarrow>
          (let is_inside = (distance \<le> radius_km g);
               previous_state = (case device_geofence_state st k of
                                   None \<Rightarrow> ''inside'' | Some s \<Rightarrow> s);
               current_state = (if is_inside then ''inside'' else ''outside'')
           in if previous_state \<noteq> current_state then
                (let st' = st\<lparr>device_geofence_state := (device_geofence_state st)(k \<mapsto> current_state)\<rparr>
                 in if current_state = ''outside'' \<and> truthy (alert_on_breach g) then
                      (Inr (Some (geofence_event e ''GEOFENCE_BREACH'' device_id
                                    previous_state current_state distance g)), st')
                    else if current_state = ''inside'' \<and> truthy (alert_on_return g) then
                      (Inr (Some (geofence_event e ''GEOFENCE_RETURN'' device_id
                                    previous_state current_state distance g)), st')
                    else (Inr None, st'))
              else (Inr None, st)))))"

section \<open>Edge intelligence (\<^verbatim>\<open>EdgeIntelligence\<close>)\<close>

text \<open>\<^verbatim>\<open>_extract_features\<close>: five floats, or five zeros when a conversion raises.\<close>

definition extract_features :: "env \<Rightarrow> pydict \<Rightarrow> real list" where
  "extract_features e t =
     (case and_then (py_float e (get t ''battery'' (JNum 0))) (\<lambda>b.
           and_then (py_float e (get t ''temperature'' (JNum 0))) (\<lambda>tm.
           and_then (py_float e (get t ''signal_strength'' (JNum 0))) (\<lambda>sg.
           and_then (py_float e (get t ''lat'' (JNum 0))) (\<lambda>la.
           and_then (py_float e (get t ''lon'' (JNum 0))) (\<lambda>lo.
           Inr [b, tm, sg, la, lo]))))) of
        Inl err \<Rightarrow> [0, 0, 0, 0, 0]
      | Inr f \<Rightarrow> f)"

text \<open>
  \<^verbatim>\<open>detect_anomalies\<close>. The whole body stands in \<^verbatim>\<open>try\<close>/\<^verbatim>\<open>except Exception\<close>,
  which returns \<^verbatim>\<open>False\<close>: an unhashable device id and a missing cache entry end
  there. \<^verbatim>\<open>_trigger_anomaly_alert\<close> prints and returns a value that is dropped.
\<close>

definition detect_anomalies ::
  "env \<Rightarrow> jval \<Rightarrow> pydict \<Rightarrow> edge_intelligence \<Rightarrow> bool \<times> edge_intelligence" where
  "detect_anomalies e device_id telemetry_data ei =
     (case dict_key device_id of
        Inl err \<Rightarrow> (False, ei)
      | Inr k \<Rightarrow>
          if k \<notin> anomaly_models ei then
            (False, if pattern_cache ei k = None
                    then ei\<lparr>pattern_cache := (pattern_cache ei)(k \<mapsto> [])\<rparr> else ei)
          else
            (let features = extract_features e telemetry_data
             in if 10 < length (case pattern_cache ei k of None \<Rightarrow> [] | Some c \<Rightarrow> c) then
                  (let ei' = (if k \<notin> anomaly_models ei
                              then ei\<lparr>anomaly_models := insert k (anomaly_models ei)\<rparr> else ei);
                       training_data = last_n 50 (the (pattern_cache ei k));
                       is_anomaly = forest e training_data features
                   in (is_anomaly, ei'))
                else
                  (case pattern_cache ei k of
                     None \<Rightarrow> (False, ei)
                   | Some c \<Rightarrow> (False, ei\<lparr>pattern_cache := (pattern_cache ei)(k \<mapsto> c @ [features])\<rparr>))))"

text \<open>
  \<^verbatim>\<open>EdgeIntelligence._calculate_distance\<close>: the haversine again, on the four angles
  converted first; \<open>0.0\<close> when a square root raises.
\<close>

definition ei_calculate_distance :: "env \<Rightarrow> real \<Rightarrow> real \<Rightarrow> real \<Rightarrow> real \<Rightarrow> real" where
  "ei_calculate_distance e lat1 lon1 lat2 lon2 =
     (let R = 6371;
          lat1 = radians e lat1;
          lon1 = radians e lon1;
          lat2 = radians e lat2;
          lon2 = radians e lon2;
          dlat = fl e (lat2 - lat1);
          dlon = fl e (lon2 - lon1);
          a = fl e (fl e ((fsin e (fl e (dlat / 2)))\<^sup>2)
                    + fl e (fl e (fcos e lat1 * fcos e lat2) * fl e ((fsin e (fl e (dlon / 2)))\<^sup>2)))
      in case and_then (py_sqrt a) (\<lambda>sa.
              and_then (py_sqrt (1 - a)) (\<lambda>sb.
              Inr (R * (2 * atan2 sa sb)))) of
           Inl err \<Rightarrow> 0
         | Inr d \<Rightarrow> d)"

text \<open>
  The changes since the previous sample, as \<^verbatim>\<open>compress_telemetry\<close> computes them:
  battery, temperature and position.
\<close>

definition telemetry_changes :: "env \<Rightarrow> pydict \<Rightarrow> pydict \<Rightarrow> error + (real \<times> real \<times> real)" where
  "telemetry_changes e current_data previous_data =
     and_then (py_float e (get current_data ''battery'' (JNum 0))) (\<lambda>cb.
     and_then (py_float e (get previous_data ''battery'' (JNum 0))) (\<lambda>pb.
     and_then (py_float e (get current_data ''temperature'' (JNum 0))) (\<lambda>ct.
     and_then (py_float e (get previous_data ''temperature'' (JNum 0))) (\<lambda>pt.
     and_then (py_float e (get current_data ''lat'' (JNum 0))) (\<lambda>clat.
     and_then (py_float e (get current_data ''lon'' (JNum 0))) (\<lambda>clon.
     and_then (py_float e (get previous_data ''lat'' (JNum 0))) (\<lambda>plat.
     and_then (py_float e (get previous_data ''lon'' (JNum 0))) (\<lambda>plon.
       Inr (\<bar>cb - pb\<bar>, \<bar>ct - pt\<bar>, ei_calculate_distance e clat clon plat plon)))))))))"

text \<open>The thresholds: more than 2 percent, more than 1 degree, more than 0.01 km.\<close>

definition significant_change :: "real \<times> real \<times> real \<Rightarrow> bool" where
  "significant_change changes =
     (case changes of (battery_change, temp_change, position_change) \<Rightarrow>
        2 < battery_change \<or> 1 < temp_change \<or> 1 / 100 < position_change)"

text \<open>The reduced map built for a significant change.\<close>

definition compressed_map :: "pydict \<Rightarrow> jval \<Rightarrow> jval \<Rightarrow> real \<times> real \<times> real \<Rightarrow> pydict" where
  "compressed_map current_data did ts changes =
     (case changes of (battery_change, temp_change, position_change) \<Rightarrow>
        [(''device_id'', did),
         (''timestamp'', ts),
         (''lat'', get current_data ''lat'' JNone),
         (''lon'', get current_data ''lon'' JNone),
         (''battery'', get current_data ''battery'' JNone),
         (''temperature'', get current_data ''temperature'' JNone),
         (''compressed'', JBool True),
         (''changes_since_last'',
            JDict [(''battery_delta'', JNum battery_change),
                   (''temp_delta'', JNum temp_change),
                   (''position_delta_km'', JNum position_change)])])"

text \<open>The body of \<^verbatim>\<open>compress_telemetry\<close> after its first test, inside the \<^verbatim>\<open>try\<close>.\<close>

definition compress_body :: "env \<Rightarrow> pydict \<Rightarrow> pydict \<Rightarrow> error + (pydict option \<times> bool)" where
  "compress_body e current_data previous_data =
     and_then (telemetry_changes e current_data previous_data) (\<lambda>changes.
       if significant_change changes then
         and_then (getitem current_data ''device_id'') (\<lambda>did.
         and_then (getitem current_data ''timestamp'') (\<lambda>ts.
         Inr (Some (compressed_map current_data did ts changes), True)))
       else Inr (None, False))"

text \<open>
  \<^verbatim>\<open>compress_telemetry\<close>: the data to process (or \<^verbatim>\<open>None\<close>) and whether to process.
  Any exception falls back to the full data.
\<close>

definition compress_telemetry ::
  "env \<Rightarrow> jval \<Rightarrow> pydict \<Rightarrow> pydict option \<Rightarrow> edge_intelligence \<Rightarrow> pydict option \<times> bool" where
  "compress_telemetry e device_id current_data previous_data ei =
     (case previous_data of
        None \<Rightarrow> (Some current_data, True)
      | Some prev \<Rightarrow>
          if \<not> compression_enabled ei \<or> prev = [] then (Some current_data, True)
          else (case compress_body e current_data prev of
                  Inl err \<Rightarrow> (Some current_data, True)
                | Inr r \<Rightarrow> r))"

section \<open>Predictive maintenance (\<^verbatim>\<open>PredictiveMaintenance\<close>)\<close>

fun all_floats :: "(error + real) list \<Rightarrow> error + real list" where
  "all_floats [] = Inr []"
| "all_floats (r # rs) = and_then r (\<lambda>v. and_then (all_floats rs) (\<lambda>vs. Inr (v # vs)))"

text \<open>
  \<^verbatim>\<open>_calculate_battery_degradation\<close>: the least-squares slope of the last ten battery
  readings against their index; \<open>0\<close> on a short history or any exception.
\<close>

definition calculate_battery_degradation :: "env \<Rightarrow> pydict list \<Rightarrow> real" where
  "calculate_battery_degradation e history =
     (if length history < 3 then 0
      else case all_floats (map (\<lambda>point. py_float e (get point ''battery'' (JNum 0)))
                              (last_n 10 history)) of
             Inl err \<Rightarrow> 0
           | Inr batteries \<Rightarrow>
               if length batteries < 2 then 0
               else (let x = map real [0..<length batteries];
                         y = batteries;
                         n = real (length x);
                         sum_x = sum_list x;
                         sum_y = sum_list y;
                         sum_xy = sum_list (map (\<lambda>i. x ! i * y ! i) [0..<length x]);
                         sum_x2 = sum_list (map (\<lambda>xi. xi\<^sup>2) x)
                     in if n * sum_x2 - sum_x\<^sup>2 = 0 then 0
                        else (n * sum_xy - sum_x * sum_y) / (n * sum_x2 - sum_x\<^sup>2)))"

text \<open>\<^verbatim>\<open>PredictiveMaintenance._calculate_distance\<close>: the same, with \<open>0\<close> on an exception.\<close>

definition pm_calculate_distance :: "env \<Rightarrow> real \<Rightarrow> real \<Rightarrow> real \<Rightarrow> real \<Rightarrow> real" where
  "pm_calculate_distance e lat1 lon1 lat2 lon2 =
     (let R = 6371;
          lat1 = radians e lat1;
          lon1 = radians e lon1;
          lat2 = radians e lat2;
          lon2 = radians e lon2;
          dlat = fl e (lat2 - lat1);
          dlon = fl e (lon2 - lon1);
          a = fl e (fl e ((fsin e (fl e (dlat / 2)))\<^sup>2)
                    + fl e (fl e (fcos e lat1 * fcos e lat2) * fl e ((fsin e (fl e (dlon / 2)))\<^sup>2)))
      in case and_then (py_sqrt a) (\<lambda>sa.
              and_then (py_sqrt (1 - a)) (\<lambda>sb.
              Inr (R * (2 * atan2 sa sb)))) of
           Inl err \<Rightarrow> 0
         | Inr d \<Rightarrow> d)"

text \<open>\<^verbatim>\<open>_calculate_movement_intensity\<close>: mean distance between consecutive positions.\<close>

definition calculate_movement_intensity :: "env \<Rightarrow> (real \<times> real) list \<Rightarrow> real" where
  "calculate_movement_intensity e movements =
     (if length movements < 2 then 0
      else (let total_distance =
                  sum_list (map (\<lambda>i. case (movements ! (i - 1), movements ! i) of
                                        ((lat1, lon1), (lat2, lon2)) \<Rightarrow>
                                          pm_calculate_distance e lat1 lon1 lat2 lon2)
                                [1..<length movements])
            in total_distance / real (length movements - 1)))"

text \<open>\<^verbatim>\<open>numpy.std\<close>: the population standard deviation.\<close>

definition np_std :: "real list \<Rightarrow> real" where
  "np_std xs =
     (let n = real (length xs); mean = sum_list xs / n
      in sqrt (sum_list (map (\<lambda>x. (x - mean)\<^sup>2) xs) / n))"

record usage_patterns =
  movement_intensity :: real
  temperature_variation :: real

text \<open>
  One round of the loop of \<^verbatim>\<open>_analyze_usage_patterns\<close>: a point whose conversion raises
  is skipped from where it raised, so a position can be kept without its temperature.
\<close>

definition usage_step ::
  "env \<Rightarrow> pydict \<Rightarrow> (real \<times> real) list \<times> real list \<Rightarrow> (real \<times> real) list \<times> real list" where
  "usage_step e point acc =
     (case acc of (movements, temperatures) \<Rightarrow>
        (case py_float e (get point ''lat'' (JNum 0)) of
           Inl err \<Rightarrow> (movements, temperatures)
         | Inr la \<Rightarrow>
        (case py_float e (get point ''lon'' (JNum 0)) of
           Inl err \<Rightarrow> (movements, temperatures)
         | Inr lo \<Rightarrow>
        (case py_float e (get point ''temperature'' (JNum 0)) of
           Inl err \<Rightarrow> (movements @ [(la, lo)], temperatures)
         | Inr tm \<Rightarrow> (movements @ [(la, lo)], temperatures @ [tm])))))"

definition analyze_usage_patterns :: "env \<Rightarrow> pydict list \<Rightarrow> usage_patterns" where
  "analyze_usage_patterns e history =
     (case foldl (\<lambda>acc point. usage_step e point acc) ([], []) (last_n 20 history) of
        (movements, temperatures) \<Rightarrow>
          \<lparr>movement_intensity =
             (if movements \<noteq> [] then calculate_movement_intensity e movements else 0),
           temperature_variation =
             (if temperatures \<noteq> [] then np_std temperatures else 0)\<rparr>)"

text \<open>\<^verbatim>\<open>_calculate_health_score\<close>.\<close>

definition calculate_health_score :: "real \<Rightarrow> usage_patterns \<Rightarrow> real" where
  "calculate_health_score battery_trend up =
     (let battery_score = max 0 (min 1 (1 + battery_trend * 10));
          movement_score = 1 - min 1 (movement_intensity up / 100);
          temp_score = 1 - min 1 (temperature_variation up / 20);
          usage_score = (movement_score + temp_score) / 2;
          health_score = battery_score * (4 / 10) + usage_score * (3 / 10) + 3 / 10
      in max 0 (min 1 health_score))"

text \<open>\<^verbatim>\<open>_generate_maintenance_actions\<close>.\<close>

definition generate_maintenance_actions :: "real \<Rightarrow> real \<Rightarrow> string list" where
  "generate_maintenance_actions health_score battery_trend =
     (if health_score < 3 / 10 then
        [''Immediate battery check'', ''Full diagnostic'', ''Consider replacement'']
      else if health_score < 6 / 10 then
        [''Scheduled maintenance'', ''Battery calibration'', ''Firmware update'']
      else [''Routine check''])
     @ (if battery_trend < - (1 / 2) then [''Battery replacement recommended''] else [])"

text \<open>
  \<^verbatim>\<open>analyze_health_trends\<close>: the prediction or \<^verbatim>\<open>None\<close>, and the object afterwards.
  An exception inside (an unhashable device id) is caught and gives \<^verbatim>\<open>None\<close>.
\<close>

definition analyze_health_trends ::
  "env \<Rightarrow> jval \<Rightarrow> pydict list \<Rightarrow> predictive \<Rightarrow> pydict option \<times> predictive" where
  "analyze_health_trends e device_id telemetry_history pm =
     (if length telemetry_history < 5 then (None, pm)
      else
        (let battery_trend = calculate_battery_degradation e telemetry_history;
             up = analyze_usage_patterns e telemetry_history;
             health_score = calculate_health_score battery_trend up
         in case dict_key device_id of
              Inl err \<Rightarrow> (None, pm)
            | Inr k \<Rightarrow>
                (let pm1 = pm\<lparr>pm_device_health_scores := (pm_device_health_scores pm)(k \<mapsto> health_score)\<rparr>;
                     days_until_maintenance =
                       (if health_score < 3 / 10 then 7
                        else if health_score < 6 / 10 then 30
                        else (90::nat));
                     prediction =
                       [(''device_id'', device_id),
                        (''health_score'', JNum (py_round health_score 2)),
                        (''predicted_maintenance_date'', JStr (date_after e days_until_maintenance)),
                        (''confidence'', JNum (85 / 100)),
                        (''recommended_actions'',
                           JList (map JStr (generate_maintenance_actions health_score battery_trend))),
                        (''battery_degradation_rate'', JNum (py_round battery_trend 4))]
                 in (Some prediction,
                     pm1\<lparr>pm_maintenance_predictions := (pm_maintenance_predictions pm1)(k \<mapsto> prediction)\<rparr>))))"

section \<open>Telemetry pipeline (\<^verbatim>\<open>app.py\<close>)\<close>

text \<open>\<^verbatim>\<open>data.get("device_id") or data.get("id", "unknown")\<close>.\<close>

definition resolve_device_id :: "pydict \<Rightarrow> jval" where
  "resolve_device_id data =
     (let d = get data ''device_id'' JNone
      in if truthy d then d else get data ''id'' (JStr ''unknown''))"

text \<open>The device record of the auto-registration.\<close>

definition auto_registered :: "env \<Rightarrow> pydict \<Rightarrow> jval \<Rightarrow> pydict" where
  "auto_registered e data protocol =
     [(''device_type'', get data ''device_type'' (JStr ''unknown'')),
      (''protocol'', protocol),
      (''firmware_version'', JStr ''unknown''),
      (''capabilities'', JList []),
      (''registered_at'', JStr (utcnow e)),
      (''status'', JStr ''active'')]"

text \<open>The alert appended for a geofence event.\<close>

definition geofence_alert_record :: "env \<Rightarrow> pydict \<Rightarrow> jval \<Rightarrow> jval \<Rightarrow> pydict \<Rightarrow> pydict" where
  "geofence_alert_record e data device_id protocol geofence_alert =
     [(''timestamp'', JStr (utcnow e)),
      (''device_id'', device_id),
      (''device_type'', get data ''device_type'' (JStr ''unknown'')),
      (''type'', get geofence_alert ''type'' JNone),
      (''detail'', JStr (''Device moved '' @ str_of e (get geofence_alert ''current_state'' JNone)
                         @ '' geofence '' @ [CHR 0x27]
                         @ str_of e (get geofence_alert ''geofence_name'' JNone) @ [CHR 0x27])),
      (''distance_km'', get geofence_alert ''distance_from_center_km'' JNone),
      (''protocol'', protocol)]"

text \<open>The canonical record; \<open>st\<close> is the backend after the geofence check.\<close>

definition canonical_record ::
  "env \<Rightarrow> pydict \<Rightarrow> jval \<Rightarrow> jval \<Rightarrow> jval \<Rightarrow> real \<Rightarrow> real \<Rightarrow> real \<Rightarrow> real \<Rightarrow> backend \<Rightarrow> pydict" where
  "canonical_record e data device_id k protocol current_lat current_lon battery temperature st =
     [(''device_id'', device_id),
      (''timestamp'', get data ''timestamp'' (JStr (utcnow e))),
      (''lat'', JNum current_lat),
      (''lon'', JNum current_lon),
      (''battery'', JNum battery),
      (''temperature'', JNum temperature),
      (''status'', get data ''status'' (JStr ''OK'')),
      (''device_type'', get data ''device_type'' (JStr ''unknown'')),
      (''sensor_data'', get data ''sensor_data'' (JDict [])),
      (''signal_strength'', get data ''signal_strength'' (JNum 0)),
      (''protocol'', protocol),
      (''received_at'', get data ''received_at'' JNone),
      (''geofence_state'',
         (case device_geofence_state st k of None \<Rightarrow> JStr ''unknown'' | Some s \<Rightarrow> JStr s)),
      (''edge_processed'', JBool True),
      (''compressed'', get data ''compressed'' (JBool False))]"

text \<open>
  \<^verbatim>\<open>telemetry[device_id].append(record)\<close>: the \<^verbatim>\<open>defaultdict\<close> makes an empty
  \<^verbatim>\<open>deque(maxlen=500)\<close> for a device without one.
\<close>

definition telemetry_append :: "jval \<Rightarrow> pydict \<Rightarrow> backend \<Rightarrow> backend" where
  "telemetry_append k record st =
     st\<lparr>telemetry := (telemetry st)(k \<mapsto>
          deque_append 500 (case telemetry st k of None \<Rightarrow> [] | Some h \<Rightarrow> h) record)\<rparr>"

text \<open>The predictive maintenance block: every time the history length is a multiple of ten.\<close>

definition maintenance_block :: "env \<Rightarrow> jval \<Rightarrow> jval \<Rightarrow> jval \<Rightarrow> backend \<Rightarrow> backend" where
  "maintenance_block e device_id k protocol st =
     (let device_history = (case telemetry st k of None \<Rightarrow> [] | Some h \<Rightarrow> h)
      in if length device_history mod 10 = 0 then
           (case analyze_health_trends e device_id device_history (predictive_maintenance st) of
              (maintenance_prediction, pm') \<Rightarrow>
                (let st1 = st\<lparr>predictive_maintenance := pm'\<rparr>
                 in case maintenance_prediction of
                      None \<Rightarrow> st1
                    | Some mp \<Rightarrow>
                        if mp = [] then st1
                        else
                          (let st2 = st1\<lparr>maintenance_predictions := (maintenance_predictions st1)(k \<mapsto> mp)\<rparr>
                           in case get mp ''health_score'' JNone of
                                JNum hs \<Rightarrow>
                                  if hs < 4 / 10 then
                                    st2\<lparr>alerts := deque_append 1000 (alerts st2)
                                      [(''timestamp'', JStr (utcnow e)),
                                       (''device_id'', device_id),
                                       (''type'', JStr ''PREDICTIVE_MAINTENANCE''),
                                       (''detail'', JStr (''Device health score: '' @ format_2f e hs)),
                                       (''predicted_maintenance'', get mp ''predicted_maintenance_date'' JNone),
                                       (''recommended_actions'', get mp ''recommended_actions'' JNone),
                                       (''protocol'', protocol),
                                       (''severity'', JStr ''high'')]\<rparr>
                                  else st2
                              | _ \<Rightarrow> st2)))
         else st)"

text \<open>
  \<^verbatim>\<open>IndustrialProtocolManager.handle_telemetry\<close> touches none of the stores; for OPC-UA it
  calls \<^verbatim>\<open>asyncio.create_task\<close>, which raises \<^verbatim>\<open>RuntimeError\<close> without a running loop.
\<close>

definition industrial_handle_telemetry :: "env \<Rightarrow> jval \<Rightarrow> error option" where
  "industrial_handle_telemetry e protocol =
     (if protocol = JStr ''opcua'' \<and> \<not> loop_running e then Some RuntimeError else None)"

text \<open>The auto-registration block: a device not yet in the registry gets a default record.\<close>

definition auto_register :: "env \<Rightarrow> pydict \<Rightarrow> jval \<Rightarrow> jval \<Rightarrow> backend \<Rightarrow> backend" where
  "auto_register e data k protocol st =
     (if device_registry st k = None
      then st\<lparr>device_registry := (device_registry st)(k \<mapsto> auto_registered e data protocol)\<rparr>
      else st)"

text \<open>\<^verbatim>\<open>if geofence_alert: alerts.append({...})\<close>.\<close>

definition append_geofence_alert ::
  "env \<Rightarrow> pydict \<Rightarrow> jval \<Rightarrow> jval \<Rightarrow> pydict option \<Rightarrow> backend \<Rightarrow> backend" where
  "append_geofence_alert e data device_id protocol geofence_alert st =
     (case geofence_alert of
        None \<Rightarrow> st
      | Some ga \<Rightarrow>
          if ga = [] then st
          else st\<lparr>alerts := deque_append 1000 (alerts st)
                      (geofence_alert_record e data device_id protocol ga)\<rparr>)"

text \<open>
  \<^verbatim>\<open>original_handle_telemetry\<close>: the exception that left the handler (or \<open>None\<close>), and the
  stores as the handler left them: what it wrote before an exception stays written.
\<close>

definition original_handle_telemetry :: "env \<Rightarrow> pydict \<Rightarrow> backend \<Rightarrow> error option \<times> backend" where
  "original_handle_telemetry e data st =
     (let device_id = resolve_device_id data;
          protocol = get data ''protocol'' (JStr ''unknown'')
      in case dict_key device_id of
           Inl err \<Rightarrow> (Some err, st)
         | Inr k \<Rightarrow>
     (let st1 = auto_register e data k protocol st
      in case py_float e (get data ''lat'' (JNum 0)) of
           Inl err \<Rightarrow> (Some err, st1)
         | Inr current_lat \<Rightarrow>
     (case py_float e (get data ''lon'' (JNum 0)) of
           Inl err \<Rightarrow> (Some err, st1)
         | Inr current_lon \<Rightarrow>
     (case check_geofence_breach e device_id current_lat current_lon st1 of
           (Inl err, st2) \<Rightarrow> (Some err, st2)
         | (Inr geofence_alert, st2) \<Rightarrow>
     (let st3 = append_geofence_alert e data device_id protocol geofence_alert st2
      in case py_float e (get data ''battery'' (JNum 0)) of
           Inl err \<Rightarrow> (Some err, st3)
         | Inr battery \<Rightarrow>
     (case py_float e (get data ''temperature'' (JNum 0)) of
           Inl err \<Rightarrow> (Some err, st3)
         | Inr temperature \<Rightarrow>
     (let record = canonical_record e data device_id k protocol
                     current_lat current_lon battery temperature st3;
          st4 = telemetry_append k record (st3\<lparr>assets := (assets st3)(k \<mapsto> record)\<rparr>);
          st5 = maintenance_block e device_id k protocol st4
      in if industrial_manager e
         then (industrial_handle_telemetry e protocol, st5)
         else (None, st5))))))))"

text \<open>\<^verbatim>\<open>enhanced_handle_telemetry\<close>, the callback every protocol adapter calls.\<close>

definition enhanced_handle_telemetry :: "env \<Rightarrow> pydict \<Rightarrow> backend \<Rightarrow> error option \<times> backend" where
  "enhanced_handle_telemetry e data st =
     (let device_id = resolve_device_id data
      in case detect_anomalies e device_id data (edge_processor st) of
           (is_anomaly, ei) \<Rightarrow>
     (let st1 = st\<lparr>edge_processor := ei\<rparr>
      in case dict_key device_id of
           Inl err \<Rightarrow> (Some err, st1)
         | Inr k \<Rightarrow>
     (let previous_data = (case telemetry st1 k of
                             None \<Rightarrow> None
                           | Some h \<Rightarrow> if h = [] then None else Some (last h))
      in case compress_telemetry e device_id data previous_data ei of
           (compressed_data, should_process) \<Rightarrow>
             if \<not> should_process \<and> (case previous_data of None \<Rightarrow> False | Some p \<Rightarrow> p \<noteq> [])
             then (None, st1)
             else
               (let processed_data =
                      (case compressed_data of
                         None \<Rightarrow> data
                       | Some c \<Rightarrow> if c \<noteq> [] then c else data);
                    st2 = st1\<lparr>edge_insights := (edge_insights st1)(k \<mapsto>
                            [(''last_processed'', JStr (utcnow e)),
                             (''anomaly_detected'', JBool is_anomaly),
                             (''data_compressed'', JBool (compressed_data \<noteq> None)),
                             (''compression_ratio'',
                                JNum (case compressed_data of
                                        None \<Rightarrow> 1
                                      | Some c \<Rightarrow>
                                          if c \<noteq> [] then real (dumps_len e c) / real (dumps_len e data)
                                          else 1))])\<rparr>
                in original_handle_telemetry e processed_data st2))))"

section \<open>Command acknowledgement\<close>

text \<open>
  The loop of \<^verbatim>\<open>ack_command\<close>: the queue with the first command of that id acknowledged,
  \<open>None\<close> when no command has the id, \<^verbatim>\<open>KeyError\<close> at a command without an id.
\<close>

fun ack_scan :: "env \<Rightarrow> string \<Rightarrow> pydict list \<Rightarrow> error + pydict list option" where
  "ack_scan e command_id [] = Inr None"
| "ack_scan e command_id (command # rest) =
     (case getitem command ''command_id'' of
        Inl err \<Rightarrow> Inl err
      | Inr cid \<Rightarrow>
          if cid = JStr command_id then
            Inr (Some (setitem (setitem command ''status'' (JStr ''acknowledged''))
                         ''ack_timestamp'' (JStr (utcnow e)) # rest))
          else (case ack_scan e command_id rest of
                  Inl err \<Rightarrow> Inl err
                | Inr None \<Rightarrow> Inr None
                | Inr (Some rest') \<Rightarrow> Inr (Some (command # rest'))))"

text \<open>
  \<^verbatim>\<open>ack_command\<close>: the JSON body and the HTTP status returned (or the exception), and the
  stores afterwards. The device id and the command id are path segments, so strings.
\<close>

definition ack_command ::
  "env \<Rightarrow> string \<Rightarrow> string \<Rightarrow> backend \<Rightarrow> (error + pydict \<times> nat) \<times> backend" where
  "ack_command e device_id command_id st =
     (case device_commands st (JStr device_id) of
        None \<Rightarrow> (Inr ([(''error'', JStr ''Device not found'')], 404), st)
      | Some queue \<Rightarrow>
          (case ack_scan e command_id queue of
             Inl err \<Rightarrow> (Inl err, st)
           | Inr None \<Rightarrow> (Inr ([(''error'', JStr ''Command not found'')], 404), st)
           | Inr (Some queue') \<Rightarrow>
               (Inr ([(''status'', JStr ''success'')], 200),
                st\<lparr>device_commands := (device_commands st)(JStr device_id \<mapsto> queue')\<rparr>)))"

section \<open>Geofence management\<close>

text \<open>
  \<^verbatim>\<open>device_geofence\<close>, POST: a registered device gets a geofence and the state
  \<open>inside\<close>. The body is the request's JSON object.
\<close>

definition device_geofence_post ::
  "env \<Rightarrow> string \<Rightarrow> pydict \<Rightarrow> backend \<Rightarrow> (error + pydict \<times> nat) \<times> backend" where
  "device_geofence_post e device_id data st =
     (if device_registry st (JStr device_id) = None then
        (Inr ([(''error'', JStr ''Device not found'')], 404), st)
      else if data = [] then
        (Inr ([(''error'', JStr ''No geofence data provided'')], 400), st)
      else if \<not> (map_of data ''center_lat'' \<noteq> None \<and> map_of data ''center_lon'' \<noteq> None
                 \<and> map_of data ''radius_km'' \<noteq> None) then
        (Inr ([(''error'', JStr ''Missing required fields: center_lat, center_lon, radius_km'')],
              400), st)
      else
        (case and_then (py_float e (get data ''center_lat'' JNone)) (\<lambda>clat.
              and_then (py_float e (get data ''center_lon'' JNone)) (\<lambda>clon.
              and_then (py_float e (get data ''radius_km'' JNone)) (\<lambda>rad.
              Inr \<lparr>center_lat = clat, center_lon = clon, radius_km = rad,
                   alert_on_breach = get data ''alert_on_breach'' (JBool True),
                   alert_on_return = get data ''alert_on_return'' (JBool False),
                   name = get data ''name'' (JStr (''Geofence for '' @ device_id)),
                   created_at = utcnow e\<rparr>))) of
           Inl err \<Rightarrow> (Inl err, st)
         | Inr geofence_config \<Rightarrow>
             (Inr ([(''status'', JStr ''success''),
                    (''geofence'',
                       JDict [(''center_lat'', JNum (center_lat geofence_config)),
                              (''center_lon'', JNum (center_lon geofence_config)),
                              (''radius_km'', JNum (radius_km geofence_config)),
                              (''alert_on_breach'', alert_on_breach geofence_config),
                              (''alert_on_return'', alert_on_return geofence_config),
                              (''name'', name geofence_config),
                              (''created_at'', JStr (created_at geofence_config))])], 200),
              st\<lparr>geofences := (geofences st)(JStr device_id \<mapsto> geofence_config),
                 device_geofence_state := (device_geofence_state st)(JStr device_id \<mapsto> ''inside'')\<rparr>)))"

text \<open>\<^verbatim>\<open>device_geofence\<close>, DELETE: the geofence and its state go together.\<close>

definition device_geofence_delete ::
  "string \<Rightarrow> backend \<Rightarrow> (pydict \<times> nat) \<times> backend" where
  "device_geofence_delete device_id st =
     (if device_registry st (JStr device_id) = None then
        (([(''error'', JStr ''Device not found'')], 404), st)
      else if geofences st (JStr device_id) \<noteq> None then
        (([(''status'', JStr ''success'')], 200),
         st\<lparr>geofences := (geofences st)(JStr device_id := None),
            device_geofence_state := (device_geofence_state st)(JStr device_id := None)\<rparr>)
      else (([(''error'', JStr ''No geofence found for device'')], 404), st))"

text \<open>Every device with a geofence has a stored containment state.\<close>

definition fences_have_state :: "backend \<Rightarrow> bool" where
  "fences_have_state st = (dom (geofences st) \<subseteq> dom (device_geofence_state st))"

section \<open>Reading the stores\<close>


text \<open>The history of a device, empty when the \<^verbatim>\<open>defaultdict\<close> has no entry yet.\<close>

definition history :: "backend \<Rightarrow> jval \<Rightarrow> pydict list" where
  "history st k = (case telemetry st k of None \<Rightarrow> [] | Some h \<Rightarrow> h)"

section \<open>Concrete inputs\<close>

definition env0 :: env where
  "env0 = \<lparr>utcnow = ''2024-01-01T00:00:00Z'', date_after = (\<lambda>n. if n = 7 then ''2024-01-08T00:00:00Z''
                              else if n = 30 then ''2024-01-31T00:00:00Z''
                              else ''2024-03-31T00:00:00Z''),
           str_float = (\<lambda>s. None), str_of = (\<lambda>v. case v of JStr s \<Rightarrow> s | _ \<Rightarrow> ''?''),
           format_2f = (\<lambda>x. ''0.00''), dumps_len = (\<lambda>d. 2 + length d),
           forest = (\<lambda>rows f. False), industrial_manager = False, loop_running = False,
           fl = (\<lambda>x. x), fsin = sin, fcos = cos\<rparr>"

text \<open>The stores at start-up.\<close>

definition empty_backend :: backend where
  "empty_backend =
     \<lparr>assets = Map.empty, telemetry = Map.empty, alerts = [], device_registry = Map.empty,
      device_commands = Map.empty, geofences = Map.empty, device_geofence_state = Map.empty,
      edge_insights = Map.empty, maintenance_predictions = Map.empty,
      edge_processor = \<lparr>anomaly_models = {}, pattern_cache = Map.empty, compression_enabled = True\<rparr>,
      predictive_maintenance = \<lparr>pm_device_health_scores = Map.empty,
                                 pm_maintenance_predictions = Map.empty\<rparr>\<rparr>"

definition depot :: geofence where
  "depot = \<lparr>center_lat = 0, center_lon = 0, radius_km = 1, alert_on_breach = JBool True,
            alert_on_return = JBool False, name = JStr ''depot'',
            created_at = ''2024-01-01T00:00:00Z''\<rparr>"

text \<open>Device \<open>d1\<close> registered, before and after its geofence has been set.\<close>

definition registered :: backend where
  "registered = empty_backend\<lparr>device_registry := [JStr ''d1'' \<mapsto>
     [(''device_type'', JStr ''tracker''),
      (''protocol'', JStr ''http''),
      (''firmware_version'', JStr ''1.0.0''),
      (''capabilities'', JList []),
      (''registered_at'', JStr ''2024-01-01T00:00:00Z''),
      (''status'', JStr ''active'')]]\<rparr>"

definition fenced :: backend where
  "fenced = registered\<lparr>geofences := [JStr ''d1'' \<mapsto> depot],
                        device_geofence_state := [JStr ''d1'' \<mapsto> ''inside'']\<rparr>"


text \<open>Device \<open>d1\<close> with one pending command, as \<^verbatim>\<open>device_commands_endpoint\<close> queues it.\<close>

definition queued :: backend where
  "queued = empty_backend\<lparr>device_commands := [JStr ''d1'' \<mapsto>
     [[(''command_id'', JStr ''c1''),
       (''type'', JStr ''reboot''),
       (''parameters'', JDict []),
       (''timestamp'', JStr ''2023-12-31T00:00:00Z''),
       (''status'', JStr ''pending'')]]]\<rparr>"

text \<open>The same clock one second earlier.\<close>

definition env_before :: env where
  "env_before = env0\<lparr>utcnow := ''2023-12-31T23:59:59Z''\<rparr>"

text \<open>
  The environment \<open>env0\<close> with the sine and cosine of the C library at three
  angles, as the doubles it returns: the sine of minus 8 degrees is
  \<^verbatim>\<open>-0.13917310096006544\<close>, the cosine of 8 degrees either way is
  \<^verbatim>\<open>0.9902680687415704\<close>, the sine of 90 degrees is \<^verbatim>\<open>1.0\<close>. The squares of the first
  two add up to more than \<open>1\<close>.
\<close>

definition env_libm :: env where
  "env_libm = env0
     \<lparr>fsin := (\<lambda>x. if x = pi / 2 then 1
                   else if x = - (2 * pi / 45) then - (5014239404989977 / 2 ^ 55)
                   else sin x),
      fcos := (\<lambda>x. if x = 2 * pi / 45 \<or> x = - (2 * pi / 45) then 4459770905381437 / 2 ^ 52
                   else cos x)\<rparr>"



text \<open>A message of device \<open>d1\<close> from the far side of the globe.\<close>

definition far_sample :: pydict where
  "far_sample =
     [(''device_id'', JStr ''d1''),
      (''timestamp'', JStr ''2024-01-01T00:00:00Z''),
      (''lat'', JNum 0),
      (''lon'', JNum 180),
      (''battery'', JNum 80),
      (''temperature'', JNum 25),
      (''status'', JStr ''MOVING''),
      (''protocol'', JStr ''http'')]"

text \<open>A run of the anomaly scorer over the samples of one device, in arrival order.\<close>

fun detect_run :: "env \<Rightarrow> jval \<Rightarrow> pydict list \<Rightarrow> edge_intelligence \<Rightarrow> bool list \<times> edge_intelligence" where
  "detect_run e device_id [] ei = ([], ei)"
| "detect_run e device_id (t # ts) ei =
     (case detect_anomalies e device_id t ei of
        (r, ei') \<Rightarrow>
          (case detect_run e device_id ts ei' of
             (rs, ei'') \<Rightarrow> (r # rs, ei'')))"

text \<open>A message of device \<open>d1\<close> at the centre of its geofence.\<close>

definition near_sample :: pydict where
  "near_sample =
     [(''device_id'', JStr ''d1''),
      (''timestamp'', JStr ''2024-01-01T00:00:00Z''),
      (''lat'', JNum 0),
      (''lon'', JNum 0),
      (''battery'', JNum 80),
      (''temperature'', JNum 25),
      (''status'', JStr ''MOVING''),
      (''signal_strength'', JNum (- 90)),
      (''protocol'', JStr ''http'')]"



text \<open>A short stored record, and a history of identical readings.\<close>

definition steady :: pydict where
  "steady = [(''device_id'', JStr ''d1''), (''lat'', JNum 0), (''lon'', JNum 0),
             (''battery'', JNum 80), (''temperature'', JNum 25)]"

text \<open>The stores after the first message of device \<open>d1\<close>, received one second earlier.\<close>

definition tracked :: backend where
  "tracked = snd (enhanced_handle_telemetry env_before near_sample empty_backend)"

text \<open>The next message: the battery has dropped by ten percent.\<close>

definition drained_sample :: pydict where
  "drained_sample =
     [(''device_id'', JStr ''d1''),
      (''timestamp'', JStr ''2024-01-01T00:00:00Z''),
      (''lat'', JNum 0),
      (''lon'', JNum 0),
      (''battery'', JNum 70),
      (''temperature'', JNum 25),
      (''status'', JStr ''MOVING''),
      (''signal_strength'', JNum (- 90)),
      (''protocol'', JStr ''http'')]"

text \<open>The same message without a timestamp, as the HTTP test client sends it.\<close>

definition untimed_sample :: pydict where
  "untimed_sample =
     [(''device_id'', JStr ''d1''),
      (''lat'', JNum 0),
      (''lon'', JNum 0),
      (''battery'', JNum 70),
      (''temperature'', JNum 25),
      (''status'', JStr ''MOVING''),
      (''signal_strength'', JNum (- 90)),
      (''protocol'', JStr ''http'')]"

section \<open>Facts about the distance\<close>

lemma below_double_limit [simp]: "x \<le> 1000000 \<Longrightarrow> \<not> double_limit \<le> x"
  by (simp add: double_limit_def)

lemma hav_range:
  fixes p1 p2 dl :: real
  defines "a \<equiv> (sin ((p2 - p1) / 2))\<^sup>2 + cos p1 * cos p2 * (sin (dl / 2))\<^sup>2"
  shows "0 \<le> a \<and> a \<le> 1"
proof -
  define s where "s = (sin (dl / 2))\<^sup>2"
  have s01: "0 \<le> s" "s \<le> 1" unfolding s_def by (simp_all add: abs_square_le_1)
  have h: "(sin ((p2 - p1) / 2))\<^sup>2 = (1 - cos (p2 - p1)) / 2"
  proof -
    define x where "x = (p2 - p1) / 2"
    have "p2 - p1 = 2 * x" by (simp add: x_def)
    then have "cos (p2 - p1) = 1 - 2 * (sin x)\<^sup>2" by (simp only: cos_double_sin)
    then show ?thesis by (simp add: x_def)
  qed
  have cc: "cos p1 * cos p2 = (cos (p2 - p1) + cos (p2 + p1)) / 2"
    by (simp add: cos_diff cos_add)
  have a_eq: "a = (1 - (1 - s) * cos (p2 - p1) + s * cos (p2 + p1)) / 2"
  proof -
    define c where "c = cos (p2 - p1)"
    define d where "d = cos (p2 + p1)"
    have "a = (1 - c) / 2 + (c + d) / 2 * s"
      unfolding a_def s_def [symmetric] h cc c_def d_def ..
    also have "\<dots> = (1 - (1 - s) * c + s * d) / 2"
      by (simp add: field_simps)
    finally show ?thesis unfolding c_def d_def .
  qed
  have bnd: "- t \<le> t * c \<and> t * c \<le> t" if "0 \<le> t" "- 1 \<le> c" "c \<le> 1" for t c :: real
    using mult_left_mono [of "- 1" c t] mult_left_mono [of c 1 t] that by simp
  have m1: "(1 - s) * cos (p2 - p1) \<le> (1 - s)" "- (1 - s) \<le> (1 - s) * cos (p2 - p1)"
    using bnd [of "1 - s" "cos (p2 - p1)"] s01 by simp_all
  have m2: "s * cos (p2 + p1) \<le> s" "- s \<le> s * cos (p2 + p1)"
    using bnd [of s "cos (p2 + p1)"] s01 by simp_all
  show ?thesis unfolding a_eq using m1 m2 by simp
qed

lemma atan2_nonneg: "0 \<le> y \<Longrightarrow> 0 \<le> x \<Longrightarrow> 0 \<le> atan2 y x"
  by (simp add: atan2_def)

text \<open>
  Without rounding error the haversine term lies in \<open>[0, 1]\<close>, and the square roots do
  not raise.
\<close>

lemma calculate_distance_exact:
  assumes ex: "exact_arithmetic e"
    and lat: "\<bar>lat2 - lat1\<bar> < double_limit" and lon: "\<bar>lon2 - lon1\<bar> < double_limit"
  shows "\<exists>d. calculate_distance e lat1 lon1 lat2 lon2 = Inr d \<and> 0 \<le> d"
proof -
  define c where "c = pi / 180"
  define a where "a = (sin ((lat2 - lat1) * c / 2))\<^sup>2
      + cos (lat1 * c) * cos (lat2 * c) * (sin ((lon2 - lon1) * c / 2))\<^sup>2"
  have fl: "fl e = (\<lambda>x. x)" "fsin e = sin" "fcos e = cos"
    using ex by (simp_all add: exact_arithmetic_def)
  have "(lat2 - lat1) * c = lat2 * c - lat1 * c" by (simp add: algebra_simps)
  then have "0 \<le> a \<and> a \<le> 1"
    unfolding a_def using hav_range [of "lat2 * c" "lat1 * c" "(lon2 - lon1) * c"] by simp
  moreover have "calculate_distance e lat1 lon1 lat2 lon2 =
      and_then (py_sqrt a) (\<lambda>sa. and_then (py_sqrt (1 - a)) (\<lambda>sb. Inr (6371 * (2 * atan2 sa sb))))"
    using lat lon by (simp add: calculate_distance_def Let_def radians_def fl a_def c_def)
  ultimately have "calculate_distance e lat1 lon1 lat2 lon2
        = Inr (6371 * (2 * atan2 (sqrt a) (sqrt (1 - a))))"
    and "0 \<le> atan2 (sqrt a) (sqrt (1 - a))"
    by (simp_all add: and_then_def py_sqrt_def atan2_nonneg)
  then show ?thesis by simp
qed

lemma env0_float: "fl env0 = (\<lambda>x. x)" "fsin env0 = sin" "fcos env0 = cos"
  by (simp_all add: env0_def)

lemma exact_env0: "exact_arithmetic env0"
  by (simp add: exact_arithmetic_def env0_float)

text \<open>With the doubles of the C library the term exceeds \<open>1\<close> at a near-antipode.\<close>

lemma angle_table: "- (4 * pi / 45) \<noteq> pi" "pi \<noteq> - (4 * pi / 45)"
  using pi_gt_zero by linarith+

lemma env_libm_float:
  "fl env_libm = (\<lambda>x. x)"
  "fsin env_libm (pi / 2) = 1"
  "fsin env_libm (- (2 * pi / 45)) = - (5014239404989977 / 2 ^ 55)"
  "fcos env_libm (2 * pi / 45) = 4459770905381437 / 2 ^ 52"
  "fcos env_libm (- (2 * pi / 45)) = 4459770905381437 / 2 ^ 52"
  by (simp_all add: env_libm_def env0_def angle_table)

lemma squares_above_one:
  "(1::real) < (5014239404989977 / 2 ^ 55)\<^sup>2
               + (4459770905381437 / 2 ^ 52) * (4459770905381437 / 2 ^ 52)"
  by (simp add: power2_eq_square)


lemma antipode: "calculate_distance env0 0 0 0 180 = Inr (6371 * pi)"
  by (simp add: calculate_distance_def Let_def radians_def and_then_def py_sqrt_def atan2_def
      env0_float)

lemma far_away: "\<not> 6371 * pi \<le> (1::real)"
  using pi_ge_two by simp


text \<open>The two other distance functions return \<open>0\<close> there.\<close>

lemma ei_near_antipode: "ei_calculate_distance env_libm 8 0 (- 8) 180 = 0"
  using squares_above_one
  by (simp add: ei_calculate_distance_def Let_def radians_def and_then_def py_sqrt_def
      env_libm_float)

lemma pm_near_antipode: "pm_calculate_distance env_libm 8 0 (- 8) 180 = 0"
  using squares_above_one
  by (simp add: pm_calculate_distance_def Let_def radians_def and_then_def py_sqrt_def
      env_libm_float)

section \<open>Geofence transitions\<close>



section \<open>Telemetry history\<close>

lemma foldl_deque_append:
  "0 < n \<Longrightarrow> length dq \<le> n \<Longrightarrow>
   foldl (deque_append n) dq xs = drop (length dq + length xs - n) (dq @ xs)"
proof (induction xs arbitrary: dq)
  case Nil
  then show ?case by simp
next
  case (Cons x xs)
  show ?case
  proof (cases "length dq < n")
    case True
    then have "deque_append n dq x = dq @ [x]" by (simp add: deque_append_def)
    moreover have "length (dq @ [x]) \<le> n" using True by simp
    ultimately show ?thesis using Cons.IH [of "dq @ [x]"] Cons.prems by simp
  next
    case False
    then have full: "length dq = n" using Cons.prems by simp
    then obtain y ys where dq: "dq = y # ys" using Cons.prems by (cases dq) auto
    have n: "n = Suc (length ys)" using full dq by simp
    have "deque_append n dq x = ys @ [x]" by (simp add: deque_append_def dq n)
    then have "foldl (deque_append n) dq (x # xs) = foldl (deque_append n) (ys @ [x]) xs"
      by simp
    also have "\<dots> = drop (length (ys @ [x]) + length xs - n) ((ys @ [x]) @ xs)"
      by (rule Cons.IH) (simp_all add: n)
    also have "\<dots> = drop (length dq + length (x # xs) - n) (dq @ x # xs)"
      by (simp add: n dq)
    finally show ?thesis .
  qed
qed

lemma history_telemetry_append:
  "history (telemetry_append d r st) k =
     (if d = k then deque_append 500 (history st k) r else history st k)"
  by (simp add: history_def telemetry_append_def)

lemma history_fold_append:
  "history (foldl (\<lambda>s p. telemetry_append (fst p) (snd p) s) st ops) k =
     foldl (deque_append 500) (history st k) (map snd (filter (\<lambda>p. fst p = k) ops))"
  by (induction ops arbitrary: st) (simp_all add: history_telemetry_append)

text \<open>
  C2. Appending records to the histories, device by device in any interleaving and
  starting from the empty stores, leaves for every device the records appended for it, in
  arrival order, without the oldest ones beyond 500: with \<open>N\<close> records appended for the
  device the history is their last \<open>min N 500\<close>.
\<close>

theorem telemetry_history_bounded:
  "history (foldl (\<lambda>s p. telemetry_append (fst p) (snd p) s) empty_backend ops) k =
     drop (length (filter (\<lambda>p. fst p = k) ops) - 500) (map snd (filter (\<lambda>p. fst p = k) ops))
   \<and> length (history (foldl (\<lambda>s p. telemetry_append (fst p) (snd p) s) empty_backend ops) k) =
     min (length (filter (\<lambda>p. fst p = k) ops)) 500"
proof -
  have e: "history empty_backend k = []" by (simp add: history_def empty_backend_def)
  have "history (foldl (\<lambda>s p. telemetry_append (fst p) (snd p) s) empty_backend ops) k =
     drop (length (filter (\<lambda>p. fst p = k) ops) - 500) (map snd (filter (\<lambda>p. fst p = k) ops))"
    by (simp add: history_fold_append e foldl_deque_append)
  then show ?thesis by simp
qed

theorem telemetry_history_bounded_witness:
  "history (foldl (\<lambda>s p. telemetry_append (fst p) (snd p) s) empty_backend
              [(JStr ''d1'', [(''battery'', JNum 1)]),
               (JStr ''d2'', [(''battery'', JNum 7)]),
               (JStr ''d1'', [(''battery'', JNum 2)])]) (JStr ''d1'')
     = [[(''battery'', JNum 1)], [(''battery'', JNum 2)]]
   \<and> history (foldl (\<lambda>s p. telemetry_append (fst p) (snd p) s) empty_backend
                ((JStr ''d1'', [(''battery'', JNum 1)])
                 # replicate 500 (JStr ''d1'', [(''battery'', JNum 2)]))) (JStr ''d1'')
     = replicate 500 [(''battery'', JNum 2)]"
proof -
  let ?ops = "[(JStr ''d1'', [(''battery'', JNum 1)]),
               (JStr ''d2'', [(''battery'', JNum 7)]),
               (JStr ''d1'', [(''battery'', JNum 2)])] :: (jval \<times> pydict) list"
  let ?full = "(JStr ''d1'', [(''battery'', JNum 1)])
               # replicate 500 (JStr ''d1'', [(''battery'', JNum 2)]) :: (jval \<times> pydict) list"
  have f: "filter (\<lambda>p. fst p = JStr ''d1'') ?ops
             = [(JStr ''d1'', [(''battery'', JNum 1)]), (JStr ''d1'', [(''battery'', JNum 2)])]"
    by simp
  have "history (foldl (\<lambda>s p. telemetry_append (fst p) (snd p) s) empty_backend ?ops) (JStr ''d1'')
          = drop (length (filter (\<lambda>p. fst p = JStr ''d1'') ?ops) - 500)
              (map snd (filter (\<lambda>p. fst p = JStr ''d1'') ?ops))"
    using telemetry_history_bounded [of ?ops "JStr ''d1''"] by (rule conjunct1)
  also have "\<dots> = [[(''battery'', JNum 1)], [(''battery'', JNum 2)]]"
    unfolding f by simp
  finally have a: "history (foldl (\<lambda>s p. telemetry_append (fst p) (snd p) s) empty_backend ?ops)
                     (JStr ''d1'') = [[(''battery'', JNum 1)], [(''battery'', JNum 2)]]" .
  have g: "filter (\<lambda>p. fst p = JStr ''d1'') ?full = ?full"
    by (simp only: filter.simps filter_replicate fst_conv simp_thms if_True)
  have "history (foldl (\<lambda>s p. telemetry_append (fst p) (snd p) s) empty_backend ?full) (JStr ''d1'')
          = drop (length (filter (\<lambda>p. fst p = JStr ''d1'') ?full) - 500)
              (map snd (filter (\<lambda>p. fst p = JStr ''d1'') ?full))"
    using telemetry_history_bounded [of ?full "JStr ''d1''"] by (rule conjunct1)
  also have "\<dots> = drop (Suc 500 - 500)
                     ([(''battery'', JNum 1)] # replicate 500 [(''battery'', JNum 2)])"
    unfolding g by (simp only: list.map map_replicate length_Cons length_replicate snd_conv)
  also have "\<dots> = replicate 500 [(''battery'', JNum 2)]"
    by simp
  finally have b: "history (foldl (\<lambda>s p. telemetry_append (fst p) (snd p) s) empty_backend ?full)
                     (JStr ''d1'') = replicate 500 [(''battery'', JNum 2)]" .
  show ?thesis using a b by (rule conjI)
qed

section \<open>Usage patterns\<close>

lemma pm_calculate_distance_nonneg: "0 \<le> pm_calculate_distance e lat1 lon1 lat2 lon2"
  by (simp add: pm_calculate_distance_def Let_def and_then_def py_sqrt_def atan2_nonneg)

lemma calculate_movement_intensity_nonneg: "0 \<le> calculate_movement_intensity e movements"
  by (auto simp: calculate_movement_intensity_def Let_def pm_calculate_distance_nonneg
      split: prod.splits intro!: sum_list_nonneg divide_nonneg_nonneg)

lemma np_std_nonneg: "0 \<le> np_std xs"
  by (auto simp: np_std_def Let_def intro!: sum_list_nonneg divide_nonneg_nonneg)

lemma analyze_usage_patterns_nonneg:
  "0 \<le> movement_intensity (analyze_usage_patterns e h)
   \<and> 0 \<le> temperature_variation (analyze_usage_patterns e h)"
  by (simp add: analyze_usage_patterns_def calculate_movement_intensity_nonneg np_std_nonneg
      split: prod.splits)

section \<open>Health score\<close>

text \<open>
  C8. For every degradation slope and every usage pattern the health score lies in
  \<open>[0, 1]\<close>. For a usage pattern with non-negative entries the battery term and the
  usage term each lie in \<open>[0, 1]\<close> and the score is \<open>0.4\<close> times the battery term
  plus \<open>0.3\<close> times the usage term plus the base \<open>0.3\<close>. The usage pattern computed
  from any history (a mean distance and a standard deviation) has non-negative entries.
\<close>

theorem health_score_clamped:
  "0 \<le> calculate_health_score battery_trend up \<and> calculate_health_score battery_trend up \<le> 1
   \<and> (0 \<le> movement_intensity up \<and> 0 \<le> temperature_variation up \<longrightarrow>
        (let battery_term = max 0 (min 1 (1 + battery_trend * 10));
             usage_term = ((1 - min 1 (movement_intensity up / 100))
                           + (1 - min 1 (temperature_variation up / 20))) / 2
         in 0 \<le> battery_term \<and> battery_term \<le> 1 \<and> 0 \<le> usage_term \<and> usage_term \<le> 1
            \<and> calculate_health_score battery_trend up
                = battery_term * (4 / 10) + usage_term * (3 / 10) + 3 / 10))
   \<and> 0 \<le> movement_intensity (analyze_usage_patterns e h)
   \<and> 0 \<le> temperature_variation (analyze_usage_patterns e h)"
proof -
  define b where "b = max 0 (min 1 (1 + battery_trend * 10))"
  define m where "m = min 1 (movement_intensity up / 100)"
  define t where "t = min 1 (temperature_variation up / 20)"
  define u where "u = ((1 - m) + (1 - t)) / 2"
  define hsum where "hsum = b * (4 / 10) + u * (3 / 10) + 3 / 10"
  have score: "calculate_health_score battery_trend up = max 0 (min 1 hsum)"
    unfolding calculate_health_score_def Let_def hsum_def u_def t_def m_def b_def by (rule refl)
  have range: "0 \<le> max 0 (min 1 hsum) \<and> max 0 (min 1 hsum) \<le> 1"
    by (simp only: max.cobounded1 max.bounded_iff min.cobounded1) simp
  have b01: "0 \<le> b \<and> b \<le> 1"
    unfolding b_def by (simp only: max.cobounded1 max.bounded_iff min.cobounded1) simp
  have part: "0 \<le> u \<and> u \<le> 1 \<and> max 0 (min 1 hsum) = hsum"
    if nonneg: "0 \<le> movement_intensity up \<and> 0 \<le> temperature_variation up"
  proof -
    have m0: "0 \<le> m" unfolding m_def using nonneg by (simp only: min.bounded_iff) simp
    have m1: "m \<le> 1" unfolding m_def by (rule min.cobounded1)
    have t0: "0 \<le> t" unfolding t_def using nonneg by (simp only: min.bounded_iff) simp
    have t1: "t \<le> 1" unfolding t_def by (rule min.cobounded1)
    have u0: "0 \<le> u" unfolding u_def using m1 t1 by simp
    have u1: "u \<le> 1" unfolding u_def using m0 t0 by simp
    have lo: "0 \<le> hsum" unfolding hsum_def using b01 u0 by simp
    have hi: "hsum \<le> 1" unfolding hsum_def using b01 u1 by simp
    have "min 1 hsum = hsum" using hi by (rule min_absorb2)
    moreover have "max 0 hsum = hsum" using lo by (rule max_absorb2)
    ultimately show ?thesis using u0 u1 by simp
  qed
  show ?thesis
    unfolding Let_def score b_def [symmetric] m_def [symmetric] t_def [symmetric]
      u_def [symmetric] hsum_def [symmetric]
    using range b01 part analyze_usage_patterns_nonneg [of e h] by blast
qed

theorem health_score_clamped_witness:
  "calculate_health_score (- (1 / 20)) \<lparr>movement_intensity = 50, temperature_variation = 10\<rparr>
     = 65 / 100"
  using health_score_clamped
    [of "- (1 / 20)" "\<lparr>movement_intensity = 50, temperature_variation = 10\<rparr>"]
  by (simp add: Let_def)

section \<open>Command acknowledgement\<close>

lemma map_of_setitem:
  "map_of (setitem d k v) k' = (if k' = k then Some v else map_of d k')"
  by (induction d) auto

lemma get_setitem:
  "get (setitem d k v) k' dflt = (if k' = k then v else get d k' dflt)"
  by (simp add: get_def map_of_setitem)

lemma ack_scan_none:
  "\<forall>c\<in>set queue. \<exists>v. map_of c ''command_id'' = Some v \<and> v \<noteq> JStr command_id \<Longrightarrow>
   ack_scan e command_id queue = Inr None"
  by (induction queue) (auto simp: getitem_def)

lemma ack_scan_first:
  "\<forall>c\<in>set pre. \<exists>v. map_of c ''command_id'' = Some v \<and> v \<noteq> JStr command_id \<Longrightarrow>
   map_of c ''command_id'' = Some (JStr command_id) \<Longrightarrow>
   ack_scan e command_id (pre @ c # post) =
     Inr (Some (pre @ setitem (setitem c ''status'' (JStr ''acknowledged''))
                        ''ack_timestamp'' (JStr (utcnow e)) # post))"
  by (induction pre) (auto simp: getitem_def)

text \<open>
  C9, as amended. Acknowledging for a device without a command queue, or with an id that
  no queued command has, returns a 404 error and changes nothing. With the id in the
  queue, the first command of that id gets the status \<open>acknowledged\<close> and the current
  time as \<open>ack_timestamp\<close>, every other command stays as it was, and the call returns
  success; this holds whatever the command's status was, so acknowledging again succeeds
  and writes a new \<open>ack_timestamp\<close>.
\<close>

theorem ack_command_lifecycle:
  "(device_commands st (JStr device_id) = None \<longrightarrow>
      ack_command e device_id command_id st =
        (Inr ([(''error'', JStr ''Device not found'')], 404), st))
   \<and> (\<forall>queue. device_commands st (JStr device_id) = Some queue
         \<and> (\<forall>c\<in>set queue. \<exists>v. map_of c ''command_id'' = Some v \<and> v \<noteq> JStr command_id) \<longrightarrow>
      ack_command e device_id command_id st =
        (Inr ([(''error'', JStr ''Command not found'')], 404), st))
   \<and> (\<forall>pre c post. device_commands st (JStr device_id) = Some (pre @ c # post)
         \<and> (\<forall>c'\<in>set pre. \<exists>v. map_of c' ''command_id'' = Some v \<and> v \<noteq> JStr command_id)
         \<and> map_of c ''command_id'' = Some (JStr command_id) \<longrightarrow>
      (let acked = setitem (setitem c ''status'' (JStr ''acknowledged''))
                     ''ack_timestamp'' (JStr (utcnow e))
       in ack_command e device_id command_id st =
            (Inr ([(''status'', JStr ''success'')], 200),
             st\<lparr>device_commands := (device_commands st)(JStr device_id \<mapsto> pre @ acked # post)\<rparr>)
          \<and> get acked ''status'' JNone = JStr ''acknowledged''
          \<and> get acked ''ack_timestamp'' JNone = JStr (utcnow e)
          \<and> (\<forall>key. key \<noteq> ''status'' \<and> key \<noteq> ''ack_timestamp'' \<longrightarrow>
                get acked key JNone = get c key JNone)))"
proof (intro conjI allI impI)
  assume "device_commands st (JStr device_id) = None"
  then show "ack_command e device_id command_id st =
        (Inr ([(''error'', JStr ''Device not found'')], 404), st)"
    by (simp add: ack_command_def)
next
  fix queue
  assume "device_commands st (JStr device_id) = Some queue
         \<and> (\<forall>c\<in>set queue. \<exists>v. map_of c ''command_id'' = Some v \<and> v \<noteq> JStr command_id)"
  then show "ack_command e device_id command_id st =
        (Inr ([(''error'', JStr ''Command not found'')], 404), st)"
    by (simp add: ack_command_def ack_scan_none)
next
  fix pre c post
  assume h: "device_commands st (JStr device_id) = Some (pre @ c # post)
         \<and> (\<forall>c'\<in>set pre. \<exists>v. map_of c' ''command_id'' = Some v \<and> v \<noteq> JStr command_id)
         \<and> map_of c ''command_id'' = Some (JStr command_id)"
  then have scan: "ack_scan e command_id (pre @ c # post) =
     Inr (Some (pre @ setitem (setitem c ''status'' (JStr ''acknowledged''))
                        ''ack_timestamp'' (JStr (utcnow e)) # post))"
    by (intro ack_scan_first) simp_all
  show "let acked = setitem (setitem c ''status'' (JStr ''acknowledged''))
                     ''ack_timestamp'' (JStr (utcnow e))
       in ack_command e device_id command_id st =
            (Inr ([(''status'', JStr ''success'')], 200),
             st\<lparr>device_commands := (device_commands st)(JStr device_id \<mapsto> pre @ acked # post)\<rparr>)
          \<and> get acked ''status'' JNone = JStr ''acknowledged''
          \<and> get acked ''ack_timestamp'' JNone = JStr (utcnow e)
          \<and> (\<forall>key. key \<noteq> ''status'' \<and> key \<noteq> ''ack_timestamp'' \<longrightarrow>
                get acked key JNone = get c key JNone)"
    using h by (simp add: Let_def ack_command_def scan get_setitem)
qed

lemma first_ack:
  "ack_command env_before ''d1'' ''c1'' queued =
     (Inr ([(''status'', JStr ''success'')], 200),
      queued\<lparr>device_commands := [JStr ''d1'' \<mapsto>
        [[(''command_id'', JStr ''c1''),
          (''type'', JStr ''reboot''),
          (''parameters'', JDict []),
          (''timestamp'', JStr ''2023-12-31T00:00:00Z''),
          (''status'', JStr ''acknowledged''),
          (''ack_timestamp'', JStr ''2023-12-31T23:59:59Z'')]]]\<rparr>)"
  by (simp add: ack_command_def queued_def getitem_def env_before_def env0_def)

theorem ack_command_lifecycle_witness:
  "ack_command env0 ''d1'' ''c1'' queued =
     (Inr ([(''status'', JStr ''success'')], 200),
      queued\<lparr>device_commands := [JStr ''d1'' \<mapsto>
        [[(''command_id'', JStr ''c1''),
          (''type'', JStr ''reboot''),
          (''parameters'', JDict []),
          (''timestamp'', JStr ''2023-12-31T00:00:00Z''),
          (''status'', JStr ''acknowledged''),
          (''ack_timestamp'', JStr ''2024-01-01T00:00:00Z'')]]]\<rparr>)
   \<and> ack_command env0 ''d1'' ''c9'' queued =
       (Inr ([(''error'', JStr ''Command not found'')], 404), queued)
   \<and> ack_command env0 ''d7'' ''c1'' queued =
       (Inr ([(''error'', JStr ''Device not found'')], 404), queued)"
proof -
  let ?c = "[(''command_id'', JStr ''c1''), (''type'', JStr ''reboot''),
             (''parameters'', JDict []), (''timestamp'', JStr ''2023-12-31T00:00:00Z''),
             (''status'', JStr ''pending'')] :: pydict"
  have q: "device_commands queued (JStr ''d1'') = Some ([] @ ?c # [])"
    by (simp add: queued_def)
  have q7: "device_commands queued (JStr ''d7'') = None"
    by (simp add: queued_def empty_backend_def)
  note thm1 = ack_command_lifecycle [of queued "''d1''" env0 "''c1''"]
  note thm9 = ack_command_lifecycle [of queued "''d1''" env0 "''c9''"]
  note thm7 = ack_command_lifecycle [of queued "''d7''" env0 "''c1''"]
  have a: "ack_command env0 ''d1'' ''c1'' queued =
     (Inr ([(''status'', JStr ''success'')], 200),
      queued\<lparr>device_commands := (device_commands queued)(JStr ''d1'' \<mapsto>
        [] @ setitem (setitem ?c ''status'' (JStr ''acknowledged''))
                     ''ack_timestamp'' (JStr (utcnow env0)) # [])\<rparr>)"
    using thm1 [THEN conjunct2, THEN conjunct2, rule_format, of "[]" ?c "[]"] q
    by (simp add: Let_def)
  have b: "ack_command env0 ''d1'' ''c9'' queued =
       (Inr ([(''error'', JStr ''Command not found'')], 404), queued)"
    using thm9 [THEN conjunct2, THEN conjunct1, rule_format, of "[?c]"] q by simp
  have c: "ack_command env0 ''d7'' ''c1'' queued =
       (Inr ([(''error'', JStr ''Device not found'')], 404), queued)"
    using thm7 [THEN conjunct1] q7 by simp
  have upd: "(device_commands queued)(JStr ''d1'' \<mapsto> x) = [JStr ''d1'' \<mapsto> x]" for x
    by (simp add: queued_def)
  show ?thesis
    using a b c by (simp add: upd env0_def)
qed

theorem ack_again_counterexample:
  "fst (ack_command env0 ''d1'' ''c1'' (snd (ack_command env_before ''d1'' ''c1'' queued)))
     = Inr ([(''status'', JStr ''success'')], 200)
   \<and> snd (ack_command env0 ''d1'' ''c1'' (snd (ack_command env_before ''d1'' ''c1'' queued)))
     \<noteq> snd (ack_command env_before ''d1'' ''c1'' queued)"
proof -
  define acked1 :: pydict where
    "acked1 = [(''command_id'', JStr ''c1''),
          (''type'', JStr ''reboot''),
          (''parameters'', JDict []),
          (''timestamp'', JStr ''2023-12-31T00:00:00Z''),
          (''status'', JStr ''acknowledged''),
          (''ack_timestamp'', JStr ''2023-12-31T23:59:59Z'')]"
  define st1 where "st1 = queued\<lparr>device_commands := [JStr ''d1'' \<mapsto> [acked1]]\<rparr>"
  have first: "snd (ack_command env_before ''d1'' ''c1'' queued) = st1"
    by (simp add: first_ack st1_def acked1_def)
  have q1: "device_commands st1 (JStr ''d1'') = Some [acked1]"
    by (simp add: st1_def)
  have gi: "getitem acked1 ''command_id'' = Inr (JStr ''c1'')"
    by (simp add: getitem_def acked1_def)
  have scan: "ack_scan env0 ''c1'' [acked1] =
      Inr (Some [setitem (setitem acked1 ''status'' (JStr ''acknowledged''))
                   ''ack_timestamp'' (JStr (utcnow env0))])"
    by (simp add: getitem_def acked1_def)
  have second: "ack_command env0 ''d1'' ''c1'' st1 =
     (Inr ([(''status'', JStr ''success'')], 200),
      st1\<lparr>device_commands := (device_commands st1)(JStr ''d1'' \<mapsto>
        [setitem (setitem acked1 ''status'' (JStr ''acknowledged''))
                   ''ack_timestamp'' (JStr (utcnow env0))])\<rparr>)"
    by (simp add: ack_command_def q1 gi)
  have differ: "setitem (setitem acked1 ''status'' (JStr ''acknowledged''))
                   ''ack_timestamp'' (JStr (utcnow env0)) \<noteq> acked1"
    by (simp add: acked1_def env0_def)
  have "device_commands (snd (ack_command env0 ''d1'' ''c1'' st1)) (JStr ''d1'')
          \<noteq> device_commands st1 (JStr ''d1'')"
    unfolding second using differ by (simp add: q1)
  then have "snd (ack_command env0 ''d1'' ''c1'' st1) \<noteq> st1" by auto
  then show ?thesis unfolding first by (simp add: second)
qed

section \<open>The telemetry handler\<close>

lemma maintenance_block_frame:
  "assets (maintenance_block e d k p st) = assets st
   \<and> telemetry (maintenance_block e d k p st) = telemetry st
   \<and> device_geofence_state (maintenance_block e d k p st) = device_geofence_state st
   \<and> geofences (maintenance_block e d k p st) = geofences st
   \<and> edge_insights (maintenance_block e d k p st) = edge_insights st
   \<and> edge_processor (maintenance_block e d k p st) = edge_processor st"
  by (simp add: maintenance_block_def Let_def split: prod.splits option.splits jval.splits)

lemma check_geofence_breach_frame:
  "\<exists>m. snd (check_geofence_breach e d lat lon st) = st\<lparr>device_geofence_state := m\<rparr>"
proof -
  have same: "st = st\<lparr>device_geofence_state := device_geofence_state st\<rparr>" by simp
  show ?thesis
    unfolding check_geofence_breach_def Let_def
    by (auto split: sum.splits option.splits intro: exI [of _ "device_geofence_state st"])
qed

lemma original_handle_telemetry_run:
  assumes "dict_key (resolve_device_id data) = Inr k"
    and "py_float e (get data ''lat'' (JNum 0)) = Inr lat"
    and "py_float e (get data ''lon'' (JNum 0)) = Inr lon"
    and "check_geofence_breach e (resolve_device_id data) lat lon
           (auto_register e data k (get data ''protocol'' (JStr ''unknown'')) st) = (Inr ga, st2)"
    and "py_float e (get data ''battery'' (JNum 0)) = Inr battery"
    and "py_float e (get data ''temperature'' (JNum 0)) = Inr temperature"
  shows "original_handle_telemetry e data st =
     (let device_id = resolve_device_id data;
          protocol = get data ''protocol'' (JStr ''unknown'');
          st3 = append_geofence_alert e data device_id protocol ga st2;
          record = canonical_record e data device_id k protocol lat lon battery temperature st3
      in (if industrial_manager e then industrial_handle_telemetry e protocol else None,
          maintenance_block e device_id k protocol
            (telemetry_append k record (st3\<lparr>assets := (assets st3)(k \<mapsto> record)\<rparr>))))"
  using assms by (simp add: original_handle_telemetry_def Let_def)

lemma original_handle_telemetry_accepted:
  assumes "fst (original_handle_telemetry e data st) = None"
  shows "\<exists>k lat lon ga st2 battery temperature.
      dict_key (resolve_device_id data) = Inr k
    \<and> py_float e (get data ''lat'' (JNum 0)) = Inr lat
    \<and> py_float e (get data ''lon'' (JNum 0)) = Inr lon
    \<and> check_geofence_breach e (resolve_device_id data) lat lon
           (auto_register e data k (get data ''protocol'' (JStr ''unknown'')) st) = (Inr ga, st2)
    \<and> py_float e (get data ''battery'' (JNum 0)) = Inr battery
    \<and> py_float e (get data ''temperature'' (JNum 0)) = Inr temperature"
  using assms unfolding original_handle_telemetry_def Let_def
  by (auto split: sum.splits prod.splits)

lemma check_after_auto_register:
  "device_geofence_state (snd (check_geofence_breach e d lat lon (auto_register e data k p st)))
     = device_geofence_state (snd (check_geofence_breach e d lat lon st))"
  by (simp add: check_geofence_breach_def auto_register_def Let_def
      split: sum.splits option.splits)

lemma geofence_state_after_check:
  assumes "dict_key d = Inr k" and "geofences st k = Some g"
    and "device_geofence_state st k \<noteq> None"
    and "calculate_distance e (center_lat g) (center_lon g) lat lon = Inr dkm"
  shows "device_geofence_state (snd (check_geofence_breach e d lat lon st)) k
           = Some (if dkm \<le> radius_km g then ''inside'' else ''outside'')"
  using assms by (auto simp: check_geofence_breach_def Let_def)

lemma check_geofence_breach_computed:
  assumes "dict_key d = Inr k" and "geofences st k = Some g"
    and "check_geofence_breach e d lat lon st = (Inr ga, st2)"
  shows "\<exists>dkm. calculate_distance e (center_lat g) (center_lon g) lat lon = Inr dkm"
  using assms by (auto simp: check_geofence_breach_def split: sum.splits)

lemma last_deque_append: "0 < n \<Longrightarrow> last (deque_append n dq x) = x"
  by (simp add: deque_append_def)

lemma geofence_state_of_record:
  "get (canonical_record e data d k p lat lon b t st) ''geofence_state'' JNone
     = (case device_geofence_state st k of None \<Rightarrow> JStr ''unknown'' | Some s \<Rightarrow> JStr s)"
  by (simp add: canonical_record_def get_def)

lemma append_geofence_alert_frame:
  "device_geofence_state (append_geofence_alert e data d p ga st) = device_geofence_state st
   \<and> assets (append_geofence_alert e data d p ga st) = assets st
   \<and> telemetry (append_geofence_alert e data d p ga st) = telemetry st"
  by (simp add: append_geofence_alert_def split: option.splits)

text \<open>
  C3. When the handler accepts a message (returns without an exception), the canonical
  record is the device's current snapshot and the newest entry of its history, and its
  \<open>geofence_state\<close> field is the containment state stored after the geofence evaluation
  of this message's position (\<open>unknown\<close> when none is stored). For a device with a
  geofence and a stored state this is \<open>inside\<close> exactly when the distance of the
  position from the centre is at most the radius.
\<close>

theorem geofence_state_recorded_after_evaluation:
  assumes "fst (original_handle_telemetry e data st) = None"
  shows "\<exists>k record lat lon.
       dict_key (resolve_device_id data) = Inr k
     \<and> py_float e (get data ''lat'' (JNum 0)) = Inr lat
     \<and> py_float e (get data ''lon'' (JNum 0)) = Inr lon
     \<and> assets (snd (original_handle_telemetry e data st)) k = Some record
     \<and> history (snd (original_handle_telemetry e data st)) k
          = deque_append 500 (history st k) record
     \<and> last (history (snd (original_handle_telemetry e data st)) k) = record
     \<and> get record ''geofence_state'' JNone
          = (case device_geofence_state (snd (original_handle_telemetry e data st)) k of
               None \<Rightarrow> JStr ''unknown'' | Some s \<Rightarrow> JStr s)
     \<and> device_geofence_state (snd (original_handle_telemetry e data st))
          = device_geofence_state
              (snd (check_geofence_breach e (resolve_device_id data) lat lon st))
     \<and> (\<forall>g. geofences st k = Some g \<and> device_geofence_state st k \<noteq> None \<longrightarrow>
          (\<exists>d. calculate_distance e (center_lat g) (center_lon g) lat lon = Inr d
             \<and> get record ''geofence_state'' JNone
                  = JStr (if d \<le> radius_km g then ''inside'' else ''outside'')))"
proof -
  let ?d = "resolve_device_id data"
  let ?p = "get data ''protocol'' (JStr ''unknown'')"
  from original_handle_telemetry_accepted [OF assms]
  obtain k lat lon ga st2 battery temperature where
    key: "dict_key ?d = Inr k"
    and lat: "py_float e (get data ''lat'' (JNum 0)) = Inr lat"
    and lon: "py_float e (get data ''lon'' (JNum 0)) = Inr lon"
    and geo: "check_geofence_breach e ?d lat lon (auto_register e data k ?p st) = (Inr ga, st2)"
    and bat: "py_float e (get data ''battery'' (JNum 0)) = Inr battery"
    and tmp: "py_float e (get data ''temperature'' (JNum 0)) = Inr temperature"
    by blast
  define st3 where "st3 = append_geofence_alert e data ?d ?p ga st2"
  define rcd where
    "rcd = canonical_record e data ?d k ?p lat lon battery temperature st3"
  define st4 where "st4 = telemetry_append k rcd (st3\<lparr>assets := (assets st3)(k \<mapsto> rcd)\<rparr>)"
  have run: "snd (original_handle_telemetry e data st) = maintenance_block e ?d k ?p st4"
    using original_handle_telemetry_run [OF key lat lon geo bat tmp]
    by (simp add: Let_def st3_def rcd_def st4_def)
  have st2: "st2 = snd (check_geofence_breach e ?d lat lon (auto_register e data k ?p st))"
    using geo by simp
  obtain m where m: "st2 = (auto_register e data k ?p st)\<lparr>device_geofence_state := m\<rparr>"
    using check_geofence_breach_frame [of e ?d lat lon "auto_register e data k ?p st"] st2
    by auto
  have tel2: "telemetry st2 = telemetry st"
    unfolding m by (simp add: auto_register_def)
  have gs3: "device_geofence_state st3 = device_geofence_state st2"
    and tel3: "telemetry st3 = telemetry st2"
    by (simp_all add: st3_def append_geofence_alert_frame)
  have gs: "device_geofence_state (snd (original_handle_telemetry e data st))
              = device_geofence_state st2"
    by (simp add: run maintenance_block_frame st4_def telemetry_append_def gs3)
  have gs_check: "device_geofence_state st2
      = device_geofence_state (snd (check_geofence_breach e ?d lat lon st))"
    unfolding st2 by (rule check_after_auto_register)
  have a: "assets (snd (original_handle_telemetry e data st)) k = Some rcd"
    by (simp add: run maintenance_block_frame st4_def telemetry_append_def)
  have h: "history (snd (original_handle_telemetry e data st)) k
             = deque_append 500 (history st k) rcd"
    by (simp add: run history_def maintenance_block_frame st4_def telemetry_append_def
        tel3 tel2)
  have l: "last (history (snd (original_handle_telemetry e data st)) k) = rcd"
    unfolding h by (simp add: last_deque_append)
  have field: "get rcd ''geofence_state'' JNone
      = (case device_geofence_state (snd (original_handle_telemetry e data st)) k of
           None \<Rightarrow> JStr ''unknown'' | Some s \<Rightarrow> JStr s)"
    unfolding rcd_def geofence_state_of_record gs gs3 ..
  have fenced: "\<exists>d. calculate_distance e (center_lat g) (center_lon g) lat lon = Inr d
             \<and> get rcd ''geofence_state'' JNone
                  = JStr (if d \<le> radius_km g then ''inside'' else ''outside'')"
    if g: "geofences st k = Some g \<and> device_geofence_state st k \<noteq> None" for g
  proof -
    have "geofences (auto_register e data k ?p st) k = Some g"
      using g by (simp add: auto_register_def)
    from check_geofence_breach_computed [OF key this geo]
    obtain d where d: "calculate_distance e (center_lat g) (center_lon g) lat lon = Inr d"
      by blast
    have "device_geofence_state (snd (check_geofence_breach e ?d lat lon st)) k
           = Some (if d \<le> radius_km g then ''inside'' else ''outside'')"
      using g by (intro geofence_state_after_check [OF key _ _ d]) simp_all
    then show ?thesis using d by (simp add: field gs gs_check)
  qed
  have gs': "device_geofence_state (snd (original_handle_telemetry e data st))
              = device_geofence_state
                  (snd (check_geofence_breach e ?d lat lon st))"
    using gs gs_check by simp
  have all_fenced: "\<forall>g. geofences st k = Some g \<and> device_geofence_state st k \<noteq> None \<longrightarrow>
          (\<exists>d. calculate_distance e (center_lat g) (center_lon g) lat lon = Inr d
             \<and> get rcd ''geofence_state'' JNone
                  = JStr (if d \<le> radius_km g then ''inside'' else ''outside''))"
    using fenced by blast
  show ?thesis
    apply (rule exI [of _ k], rule exI [of _ rcd], rule exI [of _ lat], rule exI [of _ lon])
    apply (intro conjI)
            apply (rule key lat lon a h l field gs' all_fenced)+
    done
qed

lemma breach_at_antipode:
  "check_geofence_breach env0 (JStr ''d1'') 0 180
     (auto_register env0 far_sample (JStr ''d1'') (JStr ''http'') fenced)
   = (Inr (Some (geofence_event env0 ''GEOFENCE_BREACH'' (JStr ''d1'') ''inside'' ''outside''
                   (6371 * pi) depot)),
      (auto_register env0 far_sample (JStr ''d1'') (JStr ''http'') fenced)
        \<lparr>device_geofence_state := [JStr ''d1'' \<mapsto> ''outside'']\<rparr>)"
  using antipode far_away
  by (simp add: check_geofence_breach_def auto_register_def fenced_def registered_def
      depot_def empty_backend_def Let_def)

lemma far_sample_accepted: "fst (original_handle_telemetry env0 far_sample fenced) = None"
proof -
  have f: "resolve_device_id far_sample = JStr ''d1''"
    "get far_sample ''protocol'' (JStr ''unknown'') = JStr ''http''"
    "get far_sample ''lat'' (JNum 0) = JNum 0"
    "get far_sample ''lon'' (JNum 0) = JNum 180"
    "get far_sample ''battery'' (JNum 0) = JNum 80"
    "get far_sample ''temperature'' (JNum 0) = JNum 25"
    by (simp_all add: far_sample_def resolve_device_id_def get_def)
  show ?thesis
    using breach_at_antipode
    by (subst original_handle_telemetry_run [where k = "JStr ''d1''" and lat = 0 and lon = 180
          and battery = 80 and temperature = 25])
       (simp_all add: f Let_def env0_def)
qed

theorem geofence_state_recorded_after_evaluation_witness:
  "fst (original_handle_telemetry env0 far_sample fenced) = None
   \<and> (\<exists>record. assets (snd (original_handle_telemetry env0 far_sample fenced)) (JStr ''d1'')
                   = Some record
        \<and> get record ''geofence_state'' JNone = JStr ''outside'')"
proof -
  have f: "resolve_device_id far_sample = JStr ''d1''"
    "get far_sample ''lat'' (JNum 0) = JNum 0"
    "get far_sample ''lon'' (JNum 0) = JNum 180"
    by (simp_all add: far_sample_def resolve_device_id_def get_def)
  have g: "geofences fenced (JStr ''d1'') = Some depot
           \<and> device_geofence_state fenced (JStr ''d1'') \<noteq> None"
    by (simp add: fenced_def)
  from geofence_state_recorded_after_evaluation [OF far_sample_accepted]
  obtain k rcd lat lon where
    "dict_key (resolve_device_id far_sample) = Inr k"
    "py_float env0 (get far_sample ''lat'' (JNum 0)) = Inr lat"
    "py_float env0 (get far_sample ''lon'' (JNum 0)) = Inr lon"
    "assets (snd (original_handle_telemetry env0 far_sample fenced)) k = Some rcd"
    "\<forall>g. geofences fenced k = Some g \<and> device_geofence_state fenced k \<noteq> None \<longrightarrow>
          (\<exists>d. calculate_distance env0 (center_lat g) (center_lon g) lat lon = Inr d
             \<and> get rcd ''geofence_state'' JNone
                  = JStr (if d \<le> radius_km g then ''inside'' else ''outside''))"
    by blast
  then have "assets (snd (original_handle_telemetry env0 far_sample fenced)) (JStr ''d1'') = Some rcd"
    and "\<exists>d. calculate_distance env0 (center_lat depot) (center_lon depot) 0 180 = Inr d
             \<and> get rcd ''geofence_state'' JNone
                  = JStr (if d \<le> radius_km depot then ''inside'' else ''outside'')"
    using g by (auto simp: f)
  then show ?thesis
    using far_sample_accepted antipode far_away by (auto simp: depot_def)
qed

section \<open>Anomaly scorer\<close>

lemma detect_anomalies_without_model:
  assumes "dict_key d = Inr k" and "k \<notin> anomaly_models ei"
  shows "detect_anomalies e d t ei =
           (False, if pattern_cache ei k = None
                   then ei\<lparr>pattern_cache := (pattern_cache ei)(k \<mapsto> [])\<rparr> else ei)"
  using assms by (simp add: detect_anomalies_def)

lemma detect_run_without_model:
  assumes "dict_key d = Inr k" and "k \<notin> anomaly_models ei"
  shows "detect_run e d ts ei =
           (replicate (length ts) False,
            if ts = [] \<or> pattern_cache ei k \<noteq> None then ei
            else ei\<lparr>pattern_cache := (pattern_cache ei)(k \<mapsto> [])\<rparr>)"
  using assms
proof (induction ts arbitrary: ei)
  case Nil
  then show ?case by simp
next
  case (Cons t ts)
  let ?ei = "if pattern_cache ei k = None
             then ei\<lparr>pattern_cache := (pattern_cache ei)(k \<mapsto> [])\<rparr> else ei"
  have step: "detect_anomalies e d t ei = (False, ?ei)"
    using Cons.prems by (rule detect_anomalies_without_model)
  have models: "k \<notin> anomaly_models ?ei" using Cons.prems by simp
  have cache: "pattern_cache ?ei k \<noteq> None" by auto
  show ?case
    using Cons.IH [OF Cons.prems(1) models] cache by (simp add: step)
qed

text \<open>
  C5. From start-up, ten evaluations for one device all answer "not anomalous", and
  afterwards the feature cache of the device is the empty list: no feature vector has
  been added, because without a model the scorer returns before it reaches the append,
  and a model is only ever created after that return.
\<close>

theorem anomaly_cache_stays_empty:
  "detect_run env0 (JStr ''d1'') (replicate 10 near_sample) (edge_processor empty_backend) =
     (replicate 10 False,
      (edge_processor empty_backend)\<lparr>pattern_cache := [JStr ''d1'' \<mapsto> []]\<rparr>)"
proof -
  have m: "JStr ''d1'' \<notin> anomaly_models (edge_processor empty_backend)"
    and c: "pattern_cache (edge_processor empty_backend) = Map.empty"
    by (simp_all add: empty_backend_def)
  have ne: "replicate 10 near_sample \<noteq> []" by simp
  show ?thesis
    using detect_run_without_model [of "JStr ''d1''" "JStr ''d1''"
        "edge_processor empty_backend" env0 "replicate 10 near_sample"] m ne
    by (simp add: c)
qed

section \<open>The device id in the stored record\<close>



lemma no_industrial: "industrial_manager env0 = False"
  by (simp add: env0_def)

section \<open>Maintenance predictor\<close>

text \<open>
  C7. With fewer than five points the predictor returns no prediction and leaves its
  state alone; it is a total function, so no exception leaves it. With at least five
  points, for a device id that can key the stores, it returns a prediction whose
  maintenance date is 7 days ahead when the computed health score is below \<open>0.3\<close>, 30
  days ahead when it is below \<open>0.6\<close>, and 90 days ahead otherwise; the prediction
  reports the score rounded to two decimals.
\<close>

theorem maintenance_prediction_horizon:
  "(length h < 5 \<longrightarrow> analyze_health_trends e d h pm = (None, pm))
   \<and> (5 \<le> length h \<and> dict_key d = Inr k \<longrightarrow>
        (\<exists>p. fst (analyze_health_trends e d h pm) = Some p
           \<and> (let hs = calculate_health_score (calculate_battery_degradation e h)
                          (analyze_usage_patterns e h)
               in get p ''predicted_maintenance_date'' JNone
                    = JStr (date_after e (if hs < 3 / 10 then 7 else if hs < 6 / 10 then 30 else 90))
                  \<and> get p ''health_score'' JNone = JNum (py_round hs 2))))"
  by (simp add: analyze_health_trends_def Let_def get_def)

lemma steady_degradation:
  "calculate_battery_degradation env0 [steady, steady, steady, steady, steady] = 0"
  by (simp add: calculate_battery_degradation_def last_n_def steady_def get_def and_then_def
      Let_def)

lemma pm_distance_same_point: "pm_calculate_distance env0 0 0 0 0 = 0"
  by (simp add: pm_calculate_distance_def Let_def radians_def and_then_def py_sqrt_def atan2_def
      env0_float)

lemma steady_usage:
  "analyze_usage_patterns env0 [steady, steady, steady, steady, steady]
     = \<lparr>movement_intensity = 0, temperature_variation = 0\<rparr>"
  by (simp add: analyze_usage_patterns_def last_n_def usage_step_def steady_def get_def
      calculate_movement_intensity_def pm_distance_same_point np_std_def Let_def)

lemma steady_health:
  "calculate_health_score 0 \<lparr>movement_intensity = 0, temperature_variation = 0\<rparr> = 1"
  by (simp add: calculate_health_score_def Let_def)

theorem maintenance_prediction_horizon_witness:
  "analyze_health_trends env0 (JStr ''d1'') [steady, steady, steady, steady]
       (predictive_maintenance empty_backend) = (None, predictive_maintenance empty_backend)
   \<and> (\<exists>p. fst (analyze_health_trends env0 (JStr ''d1'') [steady, steady, steady, steady, steady]
                  (predictive_maintenance empty_backend)) = Some p
          \<and> get p ''predicted_maintenance_date'' JNone = JStr ''2024-03-31T00:00:00Z''
          \<and> get p ''health_score'' JNone = JNum 1)"
proof -
  have r: "py_round 1 2 = 1" by (simp add: py_round_def Let_def)
  have d: "date_after env0 90 = ''2024-03-31T00:00:00Z''" by (simp add: env0_def)
  have a: "analyze_health_trends env0 (JStr ''d1'') [steady, steady, steady, steady]
       (predictive_maintenance empty_backend) = (None, predictive_maintenance empty_backend)"
    using maintenance_prediction_horizon
      [of "[steady, steady, steady, steady]" env0 "JStr ''d1''"
          "predictive_maintenance empty_backend"]
    by simp
  have b: "\<exists>p. fst (analyze_health_trends env0 (JStr ''d1'') [steady, steady, steady, steady, steady]
                  (predictive_maintenance empty_backend)) = Some p
          \<and> get p ''predicted_maintenance_date'' JNone = JStr ''2024-03-31T00:00:00Z''
          \<and> get p ''health_score'' JNone = JNum 1"
    using maintenance_prediction_horizon
      [of "[steady, steady, steady, steady, steady]" env0 "JStr ''d1''"
          "predictive_maintenance empty_backend" "JStr ''d1''"]
    by (simp add: steady_degradation steady_usage steady_health r d Let_def)
  show ?thesis using a b by blast
qed

section \<open>The edge pre-filter\<close>

lemma detect_anomalies_frame:
  "compression_enabled (snd (detect_anomalies e d t ei)) = compression_enabled ei"
  by (simp add: detect_anomalies_def Let_def split: sum.splits option.splits)

lemma enhanced_skip:
  assumes key: "dict_key (resolve_device_id data) = Inr k"
    and hist: "telemetry st k = Some h" "h \<noteq> []" "last h \<noteq> []"
    and en: "compression_enabled (edge_processor st)"
    and ch: "telemetry_changes e data (last h) = Inr changes" "\<not> significant_change changes"
  shows "enhanced_handle_telemetry e data st =
           (None, st\<lparr>edge_processor :=
                       snd (detect_anomalies e (resolve_device_id data) data (edge_processor st))\<rparr>)"
proof -
  obtain a ei where det: "detect_anomalies e (resolve_device_id data) data (edge_processor st) = (a, ei)"
    by (cases "detect_anomalies e (resolve_device_id data) data (edge_processor st)")
  have en': "compression_enabled ei"
    using detect_anomalies_frame [of e "resolve_device_id data" data "edge_processor st"] det en
    by simp
  have comp: "compress_telemetry e (resolve_device_id data) data (Some (last h)) ei = (None, False)"
    using en' hist ch by (simp add: compress_telemetry_def compress_body_def and_then_def)
  show ?thesis
    using hist by (simp add: enhanced_handle_telemetry_def Let_def det key comp)
qed

lemma enhanced_passes_on:
  assumes key: "dict_key (resolve_device_id data) = Inr k"
    and det: "detect_anomalies e (resolve_device_id data) data (edge_processor st) = (a, ei)"
    and prev: "previous = (case telemetry st k of
                             None \<Rightarrow> None
                           | Some h \<Rightarrow> if h = [] then None else Some (last h))"
    and comp: "compress_telemetry e (resolve_device_id data) data previous ei = (Some c, True)"
    and c: "c \<noteq> []"
  shows "enhanced_handle_telemetry e data st =
           original_handle_telemetry e c
             (st\<lparr>edge_processor := ei,
                 edge_insights := (edge_insights st)(k \<mapsto>
                   [(''last_processed'', JStr (utcnow e)),
                    (''anomaly_detected'', JBool a),
                    (''data_compressed'', JBool True),
                    (''compression_ratio'', JNum (real (dumps_len e c) / real (dumps_len e data)))])\<rparr>)"
  using c by (simp add: enhanced_handle_telemetry_def Let_def det key prev [symmetric] comp)

lemma ei_distance_same_point: "ei_calculate_distance env0 0 0 0 0 = 0"
  by (simp add: ei_calculate_distance_def Let_def radians_def and_then_def py_sqrt_def atan2_def
      env0_float)

lemma env_before_simps:
  "utcnow env_before = ''2023-12-31T23:59:59Z''" "industrial_manager env_before = False"
  "dumps_len env_before = (\<lambda>d. 2 + length d)"
  by (simp_all add: env_before_def env0_def)

lemma empty_backend_fields:
  "assets empty_backend = Map.empty" "telemetry empty_backend = Map.empty"
  "alerts empty_backend = []" "device_registry empty_backend = Map.empty"
  "geofences empty_backend = Map.empty" "device_geofence_state empty_backend = Map.empty"
  "edge_insights empty_backend = Map.empty"
  "edge_processor empty_backend =
     \<lparr>anomaly_models = {}, pattern_cache = Map.empty, compression_enabled = True\<rparr>"
  by (simp_all add: empty_backend_def)

lemma first_detect:
  "detect_anomalies env_before (JStr ''d1'') near_sample
     \<lparr>anomaly_models = {}, pattern_cache = Map.empty, compression_enabled = True\<rparr> =
     (False, \<lparr>anomaly_models = {}, pattern_cache = [JStr ''d1'' \<mapsto> []],
              compression_enabled = True\<rparr>)"
  by (simp add: detect_anomalies_def)

lemma near_sample_fields:
  "resolve_device_id near_sample = JStr ''d1''"
  "get near_sample ''protocol'' (JStr ''unknown'') = JStr ''http''"
  "get near_sample ''lat'' (JNum 0) = JNum 0"
  "get near_sample ''lon'' (JNum 0) = JNum 0"
  "get near_sample ''battery'' (JNum 0) = JNum 80"
  "get near_sample ''temperature'' (JNum 0) = JNum 25"
  by (simp_all add: near_sample_def resolve_device_id_def get_def)

lemma tracked_eq:
  "enhanced_handle_telemetry env_before near_sample empty_backend =
     (None,
      empty_backend
        \<lparr>assets := [JStr ''d1'' \<mapsto>
           canonical_record env_before near_sample (JStr ''d1'') (JStr ''d1'') (JStr ''http'')
             0 0 80 25 empty_backend],
         telemetry := [JStr ''d1'' \<mapsto>
           [canonical_record env_before near_sample (JStr ''d1'') (JStr ''d1'') (JStr ''http'')
              0 0 80 25 empty_backend]],
         device_registry := [JStr ''d1'' \<mapsto> auto_registered env_before near_sample (JStr ''http'')],
         edge_insights := [JStr ''d1'' \<mapsto>
           [(''last_processed'', JStr ''2023-12-31T23:59:59Z''),
            (''anomaly_detected'', JBool False),
            (''data_compressed'', JBool True),
            (''compression_ratio'', JNum 1)]],
         edge_processor := \<lparr>anomaly_models = {}, pattern_cache = [JStr ''d1'' \<mapsto> []],
                             compression_enabled = True\<rparr>\<rparr>)"
proof -
  let ?ei = "\<lparr>anomaly_models = {}, pattern_cache = [JStr ''d1'' \<mapsto> []],
              compression_enabled = True\<rparr>"
  let ?st2 = "empty_backend\<lparr>edge_processor := ?ei,
                 edge_insights := [JStr ''d1'' \<mapsto>
                   [(''last_processed'', JStr ''2023-12-31T23:59:59Z''),
                    (''anomaly_detected'', JBool False),
                    (''data_compressed'', JBool True),
                    (''compression_ratio'', JNum 1)]]\<rparr>"
  have ne: "near_sample \<noteq> []" by (simp add: near_sample_def)
  have pass: "enhanced_handle_telemetry env_before near_sample empty_backend =
                original_handle_telemetry env_before near_sample ?st2"
    by (subst enhanced_passes_on [where k = "JStr ''d1''" and previous = None and a = False
          and ei = ?ei and c = near_sample])
       (simp_all add: near_sample_fields empty_backend_fields first_detect
          compress_telemetry_def ne env_before_simps)
  have reg: "auto_register env_before near_sample (JStr ''d1'') (JStr ''http'') ?st2
               = ?st2\<lparr>device_registry := [JStr ''d1'' \<mapsto>
                     auto_registered env_before near_sample (JStr ''http'')]\<rparr>"
    by (simp add: auto_register_def empty_backend_fields)
  have geo: "check_geofence_breach env_before (JStr ''d1'') 0 0
               (auto_register env_before near_sample (JStr ''d1'') (JStr ''http'') ?st2)
             = (Inr None, auto_register env_before near_sample (JStr ''d1'') (JStr ''http'') ?st2)"
    by (simp add: check_geofence_breach_def reg empty_backend_fields)
  have run: "original_handle_telemetry env_before near_sample ?st2 =
     (let st3 = auto_register env_before near_sample (JStr ''d1'') (JStr ''http'') ?st2;
          r = canonical_record env_before near_sample (JStr ''d1'') (JStr ''d1'') (JStr ''http'')
                0 0 80 25 st3
      in (None, maintenance_block env_before (JStr ''d1'') (JStr ''d1'') (JStr ''http'')
                  (telemetry_append (JStr ''d1'') r (st3\<lparr>assets := (assets st3)(JStr ''d1'' \<mapsto> r)\<rparr>))))"
    by (subst original_handle_telemetry_run [where k = "JStr ''d1''" and lat = 0 and lon = 0
          and battery = 80 and temperature = 25 and ga = None
          and ?st2.0 = "auto_register env_before near_sample (JStr ''d1'') (JStr ''http'') ?st2"])
       (simp_all add: near_sample_fields geo Let_def env_before_simps append_geofence_alert_def)
  have same_record: "canonical_record env_before near_sample (JStr ''d1'') (JStr ''d1'') (JStr ''http'')
                0 0 80 25 (?st2\<lparr>device_registry := x\<rparr>)
          = canonical_record env_before near_sample (JStr ''d1'') (JStr ''d1'') (JStr ''http'')
                0 0 80 25 empty_backend" for x
    by (simp add: canonical_record_def)
  show ?thesis
    unfolding pass run reg Let_def same_record
    by (simp add: maintenance_block_def telemetry_append_def deque_append_def Let_def
        empty_backend_def env_before_simps)
qed

lemma original_handle_telemetry_unfenced:
  assumes key: "dict_key (resolve_device_id data) = Inr k"
    and lat: "py_float e (get data ''lat'' (JNum 0)) = Inr lat"
    and lon: "py_float e (get data ''lon'' (JNum 0)) = Inr lon"
    and bat: "py_float e (get data ''battery'' (JNum 0)) = Inr battery"
    and tmp: "py_float e (get data ''temperature'' (JNum 0)) = Inr temperature"
    and nofence: "geofences st k = None"
  shows "fst (original_handle_telemetry e data st)
           = (if industrial_manager e
              then industrial_handle_telemetry e (get data ''protocol'' (JStr ''unknown''))
              else None)
       \<and> assets (snd (original_handle_telemetry e data st)) k
           = Some (canonical_record e data (resolve_device_id data) k
                     (get data ''protocol'' (JStr ''unknown'')) lat lon battery temperature st)"
proof -
  let ?p = "get data ''protocol'' (JStr ''unknown'')"
  let ?st1 = "auto_register e data k ?p st"
  have geo: "check_geofence_breach e (resolve_device_id data) lat lon ?st1 = (Inr None, ?st1)"
    using nofence by (simp add: check_geofence_breach_def key auto_register_def)
  have same: "canonical_record e data (resolve_device_id data) k ?p lat lon battery temperature ?st1
            = canonical_record e data (resolve_device_id data) k ?p lat lon battery temperature st"
    by (simp add: canonical_record_def auto_register_def)
  show ?thesis
    by (simp add: original_handle_telemetry_run [OF key lat lon geo bat tmp] Let_def
        append_geofence_alert_def maintenance_block_frame telemetry_append_def same)
qed

lemma tracked_fields:
  "telemetry tracked (JStr ''d1'') =
     Some [canonical_record env_before near_sample (JStr ''d1'') (JStr ''d1'') (JStr ''http'')
             0 0 80 25 empty_backend]"
  "edge_processor tracked =
     \<lparr>anomaly_models = {}, pattern_cache = [JStr ''d1'' \<mapsto> []], compression_enabled = True\<rparr>"
  "edge_insights tracked (JStr ''d1'') =
     Some [(''last_processed'', JStr ''2023-12-31T23:59:59Z''),
           (''anomaly_detected'', JBool False),
           (''data_compressed'', JBool True),
           (''compression_ratio'', JNum 1)]"
  "geofences tracked = Map.empty"
  by (simp_all add: tracked_def tracked_eq empty_backend_fields)

lemma first_record_fields:
  "get (canonical_record env_before near_sample (JStr ''d1'') (JStr ''d1'') (JStr ''http'')
          0 0 80 25 empty_backend) ''battery'' (JNum 0) = JNum 80"
  "get (canonical_record env_before near_sample (JStr ''d1'') (JStr ''d1'') (JStr ''http'')
          0 0 80 25 empty_backend) ''temperature'' (JNum 0) = JNum 25"
  "get (canonical_record env_before near_sample (JStr ''d1'') (JStr ''d1'') (JStr ''http'')
          0 0 80 25 empty_backend) ''lat'' (JNum 0) = JNum 0"
  "get (canonical_record env_before near_sample (JStr ''d1'') (JStr ''d1'') (JStr ''http'')
          0 0 80 25 empty_backend) ''lon'' (JNum 0) = JNum 0"
  "canonical_record env_before near_sample (JStr ''d1'') (JStr ''d1'') (JStr ''http'')
          0 0 80 25 empty_backend \<noteq> []"
  by (simp_all add: canonical_record_def get_def)

lemma later_detect:
  "dict_key (resolve_device_id data) = Inr (JStr ''d1'') \<Longrightarrow>
   detect_anomalies e (resolve_device_id data) data (edge_processor tracked)
     = (False, edge_processor tracked)"
  by (simp add: detect_anomalies_def tracked_fields)

text \<open>
  C6. Device \<open>d1\<close> has a stored sample; the same reading arrives again one second later.
  All three changes are zero, so the handler skips it: it returns with every store as it
  was. The insight entry of the device still carries the time of the first message, so
  the insight bookkeeping has not been updated for the skipped sample.
\<close>

theorem skipped_sample_leaves_insights:
  "telemetry_changes env0 near_sample (last (history tracked (JStr ''d1''))) = Inr (0, 0, 0)
   \<and> enhanced_handle_telemetry env0 near_sample tracked = (None, tracked)
   \<and> get (the (edge_insights tracked (JStr ''d1''))) ''last_processed'' JNone
        = JStr ''2023-12-31T23:59:59Z''
   \<and> utcnow env0 = ''2024-01-01T00:00:00Z''"
proof -
  let ?r0 = "canonical_record env_before near_sample (JStr ''d1'') (JStr ''d1'') (JStr ''http'')
               0 0 80 25 empty_backend"
  have key: "dict_key (resolve_device_id near_sample) = Inr (JStr ''d1'')"
    by (simp add: near_sample_fields)
  have ch: "telemetry_changes env0 near_sample ?r0 = Inr (0, 0, 0)"
    by (simp add: telemetry_changes_def and_then_def near_sample_fields first_record_fields
        ei_distance_same_point)
  have quiet: "\<not> significant_change (0, 0, 0)"
    by (simp add: significant_change_def)
  have "enhanced_handle_telemetry env0 near_sample tracked =
          (None, tracked\<lparr>edge_processor :=
             snd (detect_anomalies env0 (resolve_device_id near_sample) near_sample
                    (edge_processor tracked))\<rparr>)"
    by (rule enhanced_skip [OF key _ _ _ _ _ quiet, where h = "[?r0]"])
       (simp_all add: tracked_fields first_record_fields ch)
  then have skip: "enhanced_handle_telemetry env0 near_sample tracked = (None, tracked)"
    by (simp add: later_detect [OF key])
  have h: "last (history tracked (JStr ''d1'')) = ?r0"
    by (simp add: history_def tracked_fields)
  have now: "utcnow env0 = ''2024-01-01T00:00:00Z''" by (simp add: env0_def)
  show ?thesis
    unfolding h by (simp add: ch skip tracked_fields get_def now)
qed

section \<open>Compressed records\<close>

lemma compressed_map_fields:
  "get (compressed_map data did ts changes) ''status'' x = x"
  "get (compressed_map data did ts changes) ''device_type'' x = x"
  "get (compressed_map data did ts changes) ''sensor_data'' x = x"
  "get (compressed_map data did ts changes) ''signal_strength'' x = x"
  "get (compressed_map data did ts changes) ''protocol'' x = x"
  "get (compressed_map data did ts changes) ''id'' x = x"
  "get (compressed_map data did ts changes) ''device_id'' x = did"
  "get (compressed_map data did ts changes) ''lat'' x = get data ''lat'' JNone"
  "get (compressed_map data did ts changes) ''lon'' x = get data ''lon'' JNone"
  "get (compressed_map data did ts changes) ''battery'' x = get data ''battery'' JNone"
  "get (compressed_map data did ts changes) ''temperature'' x = get data ''temperature'' JNone"
  "compressed_map data did ts changes \<noteq> []"
  by (cases changes; simp add: compressed_map_def get_def)+

lemma canonical_record_fields:
  "get (canonical_record e data d k p lat lon b t st) ''status'' JNone = get data ''status'' (JStr ''OK'')"
  "get (canonical_record e data d k p lat lon b t st) ''device_type'' JNone
     = get data ''device_type'' (JStr ''unknown'')"
  "get (canonical_record e data d k p lat lon b t st) ''sensor_data'' JNone
     = get data ''sensor_data'' (JDict [])"
  "get (canonical_record e data d k p lat lon b t st) ''signal_strength'' JNone
     = get data ''signal_strength'' (JNum 0)"
  "get (canonical_record e data d k p lat lon b t st) ''protocol'' JNone = p"
  by (simp_all add: canonical_record_def get_def)

lemma snapshot_is_canonical:
  assumes "fst (original_handle_telemetry e data st) = None"
  shows "\<exists>k lat lon b t st3. dict_key (resolve_device_id data) = Inr k
           \<and> assets (snd (original_handle_telemetry e data st)) k
               = Some (canonical_record e data (resolve_device_id data) k
                         (get data ''protocol'' (JStr ''unknown'')) lat lon b t st3)"
proof -
  from original_handle_telemetry_accepted [OF assms]
  obtain k lat lon ga st2 battery temperature where
    key: "dict_key (resolve_device_id data) = Inr k"
    and lat: "py_float e (get data ''lat'' (JNum 0)) = Inr lat"
    and lon: "py_float e (get data ''lon'' (JNum 0)) = Inr lon"
    and geo: "check_geofence_breach e (resolve_device_id data) lat lon
                (auto_register e data k (get data ''protocol'' (JStr ''unknown'')) st) = (Inr ga, st2)"
    and bat: "py_float e (get data ''battery'' (JNum 0)) = Inr battery"
    and tmp: "py_float e (get data ''temperature'' (JNum 0)) = Inr temperature"
    by blast
  have "assets (snd (original_handle_telemetry e data st)) k
          = Some (canonical_record e data (resolve_device_id data) k
                    (get data ''protocol'' (JStr ''unknown'')) lat lon battery temperature
                    (append_geofence_alert e data (resolve_device_id data)
                       (get data ''protocol'' (JStr ''unknown'')) ga st2))"
    by (simp add: original_handle_telemetry_run [OF key lat lon geo bat tmp] Let_def
        maintenance_block_frame telemetry_append_def)
  then show ?thesis using key by blast
qed

lemma enhanced_compresses:
  assumes key: "dict_key (resolve_device_id data) = Inr k"
    and hist: "telemetry st k = Some h" "h \<noteq> []" "last h \<noteq> []"
    and en: "compression_enabled (edge_processor st)"
    and ch: "telemetry_changes e data (last h) = Inr changes" "significant_change changes"
    and did: "map_of data ''device_id'' = Some did"
    and ts: "map_of data ''timestamp'' = Some ts"
  shows "\<exists>st2. enhanced_handle_telemetry e data st
                 = original_handle_telemetry e (compressed_map data did ts changes) st2
               \<and> geofences st2 = geofences st"
proof -
  obtain a ei where det: "detect_anomalies e (resolve_device_id data) data (edge_processor st) = (a, ei)"
    by (cases "detect_anomalies e (resolve_device_id data) data (edge_processor st)")
  have en': "compression_enabled ei"
    using detect_anomalies_frame [of e "resolve_device_id data" data "edge_processor st"] det en
    by simp
  have comp: "compress_telemetry e (resolve_device_id data) data (Some (last h)) ei
                = (Some (compressed_map data did ts changes), True)"
    using en' hist ch did ts
    by (simp add: compress_telemetry_def compress_body_def and_then_def getitem_def)
  let ?st2 = "st\<lparr>edge_processor := ei,
                 edge_insights := (edge_insights st)(k \<mapsto>
                   [(''last_processed'', JStr (utcnow e)),
                    (''anomaly_detected'', JBool a),
                    (''data_compressed'', JBool True),
                    (''compression_ratio'',
                       JNum (real (dumps_len e (compressed_map data did ts changes))
                             / real (dumps_len e data)))])\<rparr>"
  have pass: "enhanced_handle_telemetry e data st =
           original_handle_telemetry e (compressed_map data did ts changes) ?st2"
    by (rule enhanced_passes_on [OF key det _ comp]) (simp_all add: hist compressed_map_fields)
  have fence: "geofences ?st2 = geofences st" by simp
  show ?thesis using pass fence by (rule exI [of _ ?st2, OF conjI])
qed

lemma enhanced_falls_back:
  assumes key: "dict_key (resolve_device_id data) = Inr k"
    and hist: "telemetry st k = Some h" "h \<noteq> []" "last h \<noteq> []"
    and en: "compression_enabled (edge_processor st)"
    and ch: "telemetry_changes e data (last h) = Inr changes" "significant_change changes"
    and missing: "map_of data ''device_id'' = None \<or> map_of data ''timestamp'' = None"
  shows "\<exists>st2. enhanced_handle_telemetry e data st = original_handle_telemetry e data st2
               \<and> geofences st2 = geofences st"
proof -
  obtain a ei where det: "detect_anomalies e (resolve_device_id data) data (edge_processor st) = (a, ei)"
    by (cases "detect_anomalies e (resolve_device_id data) data (edge_processor st)")
  have en': "compression_enabled ei"
    using detect_anomalies_frame [of e "resolve_device_id data" data "edge_processor st"] det en
    by simp
  have comp: "compress_telemetry e (resolve_device_id data) data (Some (last h)) ei
                = (Some data, True)"
    using en' hist ch missing
    by (auto simp: compress_telemetry_def compress_body_def and_then_def getitem_def
        split: option.splits)
  let ?st2 = "st\<lparr>edge_processor := ei,
                 edge_insights := (edge_insights st)(k \<mapsto>
                   [(''last_processed'', JStr (utcnow e)),
                    (''anomaly_detected'', JBool a),
                    (''data_compressed'', JBool True),
                    (''compression_ratio'',
                       JNum (if data \<noteq> [] then real (dumps_len e data) / real (dumps_len e data)
                             else 1))])\<rparr>"
  have pass: "enhanced_handle_telemetry e data st = original_handle_telemetry e data ?st2"
    using hist by (simp add: enhanced_handle_telemetry_def Let_def det key comp)
  have fence: "geofences ?st2 = geofences st" by simp
  show ?thesis using pass fence by (rule exI [of _ ?st2, OF conjI])
qed

text \<open>
  C10, as amended. Let the device of a message have a stored previous sample, and let the
  changes of the message against that sample be computed and judged significant, with
  compression enabled. If the message carries both a \<open>device_id\<close> key and a
  \<open>timestamp\<close> key and the handler accepts it, the record it stores is built from the
  reduced map: its status, device type, sensor data, signal strength and protocol are
  the defaults \<open>OK\<close>, \<open>unknown\<close>, the empty map, \<open>0\<close> and \<open>unknown\<close>, whatever the
  message carried. The record is the snapshot of the device the reduced map resolves
  to, which is the message's device when its \<open>device_id\<close> is truthy. If the message
  lacks one of the two keys and the handler accepts it, the compression falls back to
  the full message, and the snapshot of its device keeps what the message carried in
  these five fields (the defaults only for a field the message does not have).
\<close>

theorem compressed_record_defaults:
  assumes key: "dict_key (resolve_device_id data) = Inr k"
    and hist: "telemetry st k = Some h" "h \<noteq> []" "last h \<noteq> []"
    and en: "compression_enabled (edge_processor st)"
    and ch: "telemetry_changes e data (last h) = Inr changes" "significant_change changes"
  shows "(\<forall>did ts. map_of data ''device_id'' = Some did \<and> map_of data ''timestamp'' = Some ts
            \<and> fst (enhanced_handle_telemetry e data st) = None \<longrightarrow>
          (\<exists>k' r. dict_key (resolve_device_id (compressed_map data did ts changes)) = Inr k'
             \<and> (truthy did \<longrightarrow> k' = k)
             \<and> assets (snd (enhanced_handle_telemetry e data st)) k' = Some r
             \<and> get r ''status'' JNone = JStr ''OK''
             \<and> get r ''device_type'' JNone = JStr ''unknown''
             \<and> get r ''sensor_data'' JNone = JDict []
             \<and> get r ''signal_strength'' JNone = JNum 0
             \<and> get r ''protocol'' JNone = JStr ''unknown''))
       \<and> ((map_of data ''device_id'' = None \<or> map_of data ''timestamp'' = None)
            \<and> fst (enhanced_handle_telemetry e data st) = None \<longrightarrow>
          (\<exists>r. assets (snd (enhanced_handle_telemetry e data st)) k = Some r
             \<and> get r ''status'' JNone = get data ''status'' (JStr ''OK'')
             \<and> get r ''device_type'' JNone = get data ''device_type'' (JStr ''unknown'')
             \<and> get r ''sensor_data'' JNone = get data ''sensor_data'' (JDict [])
             \<and> get r ''signal_strength'' JNone = get data ''signal_strength'' (JNum 0)
             \<and> get r ''protocol'' JNone = get data ''protocol'' (JStr ''unknown'')))"
proof (intro conjI allI impI)
  fix did ts
  assume h: "map_of data ''device_id'' = Some did \<and> map_of data ''timestamp'' = Some ts
            \<and> fst (enhanced_handle_telemetry e data st) = None"
  then have did: "map_of data ''device_id'' = Some did"
    and ts: "map_of data ''timestamp'' = Some ts"
    and acc: "fst (enhanced_handle_telemetry e data st) = None"
    by simp_all
  let ?c = "compressed_map data did ts changes"
  obtain st2 where pass: "enhanced_handle_telemetry e data st = original_handle_telemetry e ?c st2"
    using enhanced_compresses [OF key hist en ch did ts] by blast
  have acc': "fst (original_handle_telemetry e ?c st2) = None"
    using acc by (simp add: pass)
  from snapshot_is_canonical [OF acc']
  obtain k' lat lon b t st3 where
    k': "dict_key (resolve_device_id ?c) = Inr k'"
    and a: "assets (snd (original_handle_telemetry e ?c st2)) k'
              = Some (canonical_record e ?c (resolve_device_id ?c) k'
                        (get ?c ''protocol'' (JStr ''unknown'')) lat lon b t st3)"
    by blast
  have same: "truthy did \<longrightarrow> k' = k"
  proof
    assume t: "truthy did"
    have "resolve_device_id ?c = did"
      using t by (simp add: resolve_device_id_def Let_def compressed_map_fields)
    moreover have "resolve_device_id data = did"
      using t did by (simp add: resolve_device_id_def Let_def get_def)
    ultimately show "k' = k" using k' key by simp
  qed
  show "\<exists>k' r. dict_key (resolve_device_id (compressed_map data did ts changes)) = Inr k'
             \<and> (truthy did \<longrightarrow> k' = k)
             \<and> assets (snd (enhanced_handle_telemetry e data st)) k' = Some r
             \<and> get r ''status'' JNone = JStr ''OK''
             \<and> get r ''device_type'' JNone = JStr ''unknown''
             \<and> get r ''sensor_data'' JNone = JDict []
             \<and> get r ''signal_strength'' JNone = JNum 0
             \<and> get r ''protocol'' JNone = JStr ''unknown''"
    apply (rule exI [of _ k'])
    apply (rule exI [of _ "canonical_record e ?c (resolve_device_id ?c) k'
                        (get ?c ''protocol'' (JStr ''unknown'')) lat lon b t st3"])
    using k' same a
    apply (simp add: pass canonical_record_fields compressed_map_fields)
    done
next
  assume h: "(map_of data ''device_id'' = None \<or> map_of data ''timestamp'' = None)
            \<and> fst (enhanced_handle_telemetry e data st) = None"
  then have missing: "map_of data ''device_id'' = None \<or> map_of data ''timestamp'' = None"
    and acc: "fst (enhanced_handle_telemetry e data st) = None"
    by simp_all
  obtain st2 where pass: "enhanced_handle_telemetry e data st = original_handle_telemetry e data st2"
    using enhanced_falls_back [OF key hist en ch missing] by blast
  have acc': "fst (original_handle_telemetry e data st2) = None"
    using acc by (simp add: pass)
  from snapshot_is_canonical [OF acc']
  obtain k' lat lon b t st3 where
    k': "dict_key (resolve_device_id data) = Inr k'"
    and a: "assets (snd (original_handle_telemetry e data st2)) k'
              = Some (canonical_record e data (resolve_device_id data) k'
                        (get data ''protocol'' (JStr ''unknown'')) lat lon b t st3)"
    by blast
  have "k' = k" using k' key by simp
  then show "\<exists>r. assets (snd (enhanced_handle_telemetry e data st)) k = Some r
             \<and> get r ''status'' JNone = get data ''status'' (JStr ''OK'')
             \<and> get r ''device_type'' JNone = get data ''device_type'' (JStr ''unknown'')
             \<and> get r ''sensor_data'' JNone = get data ''sensor_data'' (JDict [])
             \<and> get r ''signal_strength'' JNone = get data ''signal_strength'' (JNum 0)
             \<and> get r ''protocol'' JNone = get data ''protocol'' (JStr ''unknown'')"
    using a by (simp add: pass canonical_record_fields)
qed

lemma drained_sample_fields:
  "resolve_device_id drained_sample = JStr ''d1''"
  "map_of drained_sample ''device_id'' = Some (JStr ''d1'')"
  "map_of drained_sample ''timestamp'' = Some (JStr ''2024-01-01T00:00:00Z'')"
  "get drained_sample ''lat'' x = JNum 0"
  "get drained_sample ''lon'' x = JNum 0"
  "get drained_sample ''battery'' x = JNum 70"
  "get drained_sample ''temperature'' x = JNum 25"
  "get drained_sample ''status'' x = JStr ''MOVING''"
  "get drained_sample ''protocol'' x = JStr ''http''"
  by (simp_all add: drained_sample_def resolve_device_id_def get_def)

lemma untimed_sample_fields:
  "resolve_device_id untimed_sample = JStr ''d1''"
  "map_of untimed_sample ''timestamp'' = None"
  "get untimed_sample ''lat'' x = JNum 0"
  "get untimed_sample ''lon'' x = JNum 0"
  "get untimed_sample ''battery'' x = JNum 70"
  "get untimed_sample ''temperature'' x = JNum 25"
  "get untimed_sample ''status'' x = JStr ''MOVING''"
  "get untimed_sample ''protocol'' x = JStr ''http''"
  "untimed_sample \<noteq> []"
  by (simp_all add: untimed_sample_def resolve_device_id_def get_def)

lemma drained_changes:
  "telemetry_changes env0 drained_sample
     (canonical_record env_before near_sample (JStr ''d1'') (JStr ''d1'') (JStr ''http'')
        0 0 80 25 empty_backend) = Inr (10, 0, 0)"
  by (simp add: telemetry_changes_def and_then_def drained_sample_fields first_record_fields
      ei_distance_same_point)

lemma untimed_changes:
  "telemetry_changes env0 untimed_sample
     (canonical_record env_before near_sample (JStr ''d1'') (JStr ''d1'') (JStr ''http'')
        0 0 80 25 empty_backend) = Inr (10, 0, 0)"
  by (simp add: telemetry_changes_def and_then_def untimed_sample_fields first_record_fields
      ei_distance_same_point)

lemma ten_percent_significant: "significant_change (10, 0, 0)"
  by (simp add: significant_change_def)

lemma drained_sample_accepted:
  "fst (enhanced_handle_telemetry env0 drained_sample tracked) = None"
proof -
  let ?r0 = "canonical_record env_before near_sample (JStr ''d1'') (JStr ''d1'') (JStr ''http'')
               0 0 80 25 empty_backend"
  let ?c = "compressed_map drained_sample (JStr ''d1'') (JStr ''2024-01-01T00:00:00Z'') (10, 0, 0)"
  have key: "dict_key (resolve_device_id drained_sample) = Inr (JStr ''d1'')"
    by (simp add: drained_sample_fields)
  obtain st2 where pass: "enhanced_handle_telemetry env0 drained_sample tracked
                            = original_handle_telemetry env0 ?c st2"
    and fence: "geofences st2 = geofences tracked"
    using enhanced_compresses [OF key, where h = "[?r0]" and st = tracked and e = env0
        and changes = "(10, 0, 0)" and did = "JStr ''d1''" and ts = "JStr ''2024-01-01T00:00:00Z''"]
    by (auto simp: tracked_fields first_record_fields drained_changes ten_percent_significant
        drained_sample_fields)
  have rc: "resolve_device_id ?c = JStr ''d1''"
    by (simp add: resolve_device_id_def Let_def compressed_map_fields)
  have "fst (original_handle_telemetry env0 ?c st2) = None"
    using original_handle_telemetry_unfenced [where data = ?c and k = "JStr ''d1''" and e = env0
        and st = st2 and lat = 0 and lon = 0 and battery = 70 and temperature = 25]
    by (simp add: rc compressed_map_fields drained_sample_fields fence tracked_fields
        no_industrial)
  then show ?thesis by (simp add: pass)
qed

lemma untimed_sample_run:
  "\<exists>st2. fst (enhanced_handle_telemetry env0 untimed_sample tracked) = None
        \<and> assets (snd (enhanced_handle_telemetry env0 untimed_sample tracked)) (JStr ''d1'')
            = Some (canonical_record env0 untimed_sample (JStr ''d1'') (JStr ''d1'')
                      (JStr ''http'') 0 0 70 25 st2)"
proof -
  let ?r0 = "canonical_record env_before near_sample (JStr ''d1'') (JStr ''d1'') (JStr ''http'')
               0 0 80 25 empty_backend"
  have key: "dict_key (resolve_device_id untimed_sample) = Inr (JStr ''d1'')"
    by (simp add: untimed_sample_fields)
  obtain st2 where pass: "enhanced_handle_telemetry env0 untimed_sample tracked
                            = original_handle_telemetry env0 untimed_sample st2"
    and fence: "geofences st2 = geofences tracked"
    using enhanced_falls_back [OF key, where h = "[?r0]" and st = tracked and e = env0
        and changes = "(10, 0, 0)"]
    by (auto simp: tracked_fields first_record_fields untimed_changes ten_percent_significant
        untimed_sample_fields)
  have run: "fst (original_handle_telemetry env0 untimed_sample st2) = None
       \<and> assets (snd (original_handle_telemetry env0 untimed_sample st2)) (JStr ''d1'')
           = Some (canonical_record env0 untimed_sample (JStr ''d1'') (JStr ''d1'')
                     (JStr ''http'') 0 0 70 25 st2)"
    using original_handle_telemetry_unfenced [where data = untimed_sample and k = "JStr ''d1''"
        and e = env0 and st = st2 and lat = 0 and lon = 0 and battery = 70 and temperature = 25]
    by (simp add: untimed_sample_fields fence tracked_fields no_industrial)
  show ?thesis
    unfolding pass using run by blast
qed

theorem compressed_record_defaults_witness:
  "fst (enhanced_handle_telemetry env0 drained_sample tracked) = None
   \<and> get drained_sample ''status'' JNone = JStr ''MOVING''
   \<and> get drained_sample ''protocol'' JNone = JStr ''http''
   \<and> (\<exists>r. assets (snd (enhanced_handle_telemetry env0 drained_sample tracked)) (JStr ''d1'')
                = Some r
          \<and> get r ''status'' JNone = JStr ''OK''
          \<and> get r ''protocol'' JNone = JStr ''unknown'')
   \<and> fst (enhanced_handle_telemetry env0 untimed_sample tracked) = None
   \<and> (\<exists>r. assets (snd (enhanced_handle_telemetry env0 untimed_sample tracked)) (JStr ''d1'')
                = Some r
          \<and> get r ''status'' JNone = JStr ''MOVING''
          \<and> get r ''protocol'' JNone = JStr ''http'')"
proof -
  let ?r0 = "canonical_record env_before near_sample (JStr ''d1'') (JStr ''d1'') (JStr ''http'')
               0 0 80 25 empty_backend"
  have key: "dict_key (resolve_device_id drained_sample) = Inr (JStr ''d1'')"
    by (simp add: drained_sample_fields)
  have key': "dict_key (resolve_device_id untimed_sample) = Inr (JStr ''d1'')"
    by (simp add: untimed_sample_fields)
  have hist: "telemetry tracked (JStr ''d1'') = Some [?r0]" "[?r0] \<noteq> []" "last [?r0] \<noteq> []"
    by (simp_all add: tracked_fields first_record_fields)
  have en: "compression_enabled (edge_processor tracked)"
    by (simp add: tracked_fields)
  have ch: "telemetry_changes env0 drained_sample (last [?r0]) = Inr (10, 0, 0)"
    by (simp add: drained_changes)
  have ch': "telemetry_changes env0 untimed_sample (last [?r0]) = Inr (10, 0, 0)"
    by (simp add: untimed_changes)
  have acc': "fst (enhanced_handle_telemetry env0 untimed_sample tracked) = None"
    using untimed_sample_run by blast
  from compressed_record_defaults [OF key hist en ch ten_percent_significant, THEN conjunct1,
      rule_format, of "JStr ''d1''" "JStr ''2024-01-01T00:00:00Z''"]
    drained_sample_fields(2) drained_sample_fields(3) drained_sample_accepted
  obtain k' r where "truthy (JStr ''d1'') \<longrightarrow> k' = JStr ''d1''"
    and "assets (snd (enhanced_handle_telemetry env0 drained_sample tracked)) k' = Some r"
    and "get r ''status'' JNone = JStr ''OK''"
    and "get r ''protocol'' JNone = JStr ''unknown''"
    by blast
  then have a: "\<exists>r. assets (snd (enhanced_handle_telemetry env0 drained_sample tracked))
                     (JStr ''d1'') = Some r
          \<and> get r ''status'' JNone = JStr ''OK''
          \<and> get r ''protocol'' JNone = JStr ''unknown''"
    by auto
  from compressed_record_defaults [OF key' hist en ch' ten_percent_significant, THEN conjunct2,
      rule_format] untimed_sample_fields(2) acc'
  obtain r' where "assets (snd (enhanced_handle_telemetry env0 untimed_sample tracked))
                     (JStr ''d1'') = Some r'"
    and "get r' ''status'' JNone = get untimed_sample ''status'' (JStr ''OK'')"
    and "get r' ''protocol'' JNone = get untimed_sample ''protocol'' (JStr ''unknown'')"
    by blast
  then have b: "\<exists>r. assets (snd (enhanced_handle_telemetry env0 untimed_sample tracked))
                     (JStr ''d1'') = Some r
          \<and> get r ''status'' JNone = JStr ''MOVING''
          \<and> get r ''protocol'' JNone = JStr ''http''"
    by (auto simp: untimed_sample_fields)
  show ?thesis
    using a b acc' drained_sample_accepted by (simp add: drained_sample_fields)
qed

theorem full_record_counterexample:
  "telemetry_changes env0 untimed_sample (last (history tracked (JStr ''d1''))) = Inr (10, 0, 0)
   \<and> significant_change (10, 0, 0)
   \<and> fst (enhanced_handle_telemetry env0 untimed_sample tracked) = None
   \<and> get (the (assets (snd (enhanced_handle_telemetry env0 untimed_sample tracked))
                  (JStr ''d1''))) ''status'' JNone = JStr ''MOVING''
   \<and> get (the (assets (snd (enhanced_handle_telemetry env0 untimed_sample tracked))
                  (JStr ''d1''))) ''protocol'' JNone = JStr ''http''"
proof -
  let ?r0 = "canonical_record env_before near_sample (JStr ''d1'') (JStr ''d1'') (JStr ''http'')
               0 0 80 25 empty_backend"
  have h: "last (history tracked (JStr ''d1'')) = ?r0"
    by (simp add: history_def tracked_fields)
  obtain st2 where run: "fst (enhanced_handle_telemetry env0 untimed_sample tracked) = None"
    "assets (snd (enhanced_handle_telemetry env0 untimed_sample tracked)) (JStr ''d1'')
       = Some (canonical_record env0 untimed_sample (JStr ''d1'') (JStr ''d1'')
                 (JStr ''http'') 0 0 70 25 st2)"
    using untimed_sample_run by blast
  show ?thesis
    unfolding h
    by (simp add: run untimed_changes ten_percent_significant canonical_record_fields
        untimed_sample_fields)
qed

section \<open>Device identity at the entry point\<close>















section \<open>Geofences and their stored state\<close>

lemma fenced_by_post:
  "device_geofence_post env0 ''d1''
     [(''center_lat'', JNum 0), (''center_lon'', JNum 0), (''radius_km'', JNum 1),
      (''name'', JStr ''depot'')] registered
   = (Inr ([(''status'', JStr ''success''),
            (''geofence'',
               JDict [(''center_lat'', JNum 0), (''center_lon'', JNum 0), (''radius_km'', JNum 1),
                      (''alert_on_breach'', JBool True), (''alert_on_return'', JBool False),
                      (''name'', JStr ''depot''),
                      (''created_at'', JStr ''2024-01-01T00:00:00Z'')])], 200),
      fenced)"
  by (simp add: device_geofence_post_def registered_def fenced_def depot_def get_def
      and_then_def env0_def empty_backend_def)

lemma fences_have_state_start: "fences_have_state empty_backend"
  by (simp add: fences_have_state_def empty_backend_def)

lemma fences_have_state_post:
  "fences_have_state st \<Longrightarrow> fences_have_state (snd (device_geofence_post e d data st))"
  by (auto simp: fences_have_state_def device_geofence_post_def split: sum.splits)

lemma fences_have_state_delete:
  "fences_have_state st \<Longrightarrow> fences_have_state (snd (device_geofence_delete d st))"
  by (auto simp: fences_have_state_def device_geofence_delete_def)

lemma check_geofence_breach_fences:
  "geofences (snd (check_geofence_breach e d lat lon st)) = geofences st
   \<and> dom (device_geofence_state st)
        \<subseteq> dom (device_geofence_state (snd (check_geofence_breach e d lat lon st)))"
  by (auto simp: check_geofence_breach_def Let_def split: sum.splits option.splits)

lemma original_handle_telemetry_fences:
  "geofences (snd (original_handle_telemetry e data st)) = geofences st
   \<and> dom (device_geofence_state st)
        \<subseteq> dom (device_geofence_state (snd (original_handle_telemetry e data st)))"
proof (cases "dict_key (resolve_device_id data)")
  case (Inl err)
  then show ?thesis by (simp add: original_handle_telemetry_def Let_def)
next
  case (Inr k)
  let ?d = "resolve_device_id data"
  let ?p = "get data ''protocol'' (JStr ''unknown'')"
  let ?st1 = "auto_register e data k ?p st"
  have st1: "geofences ?st1 = geofences st"
    "device_geofence_state ?st1 = device_geofence_state st"
    by (simp_all add: auto_register_def)
  have chk: "geofences (snd (check_geofence_breach e ?d lat lon ?st1)) = geofences st
       \<and> dom (device_geofence_state st)
            \<subseteq> dom (device_geofence_state (snd (check_geofence_breach e ?d lat lon ?st1)))"
    for lat lon
    using check_geofence_breach_fences [of e ?d lat lon ?st1] by (simp add: st1)
  have chk': "check_geofence_breach e ?d lat lon ?st1 = (r, st2) \<Longrightarrow>
       geofences st2 = geofences st
       \<and> dom (device_geofence_state st) \<subseteq> dom (device_geofence_state st2)" for lat lon r st2
    using chk [of lat lon] by simp
  show ?thesis
    unfolding original_handle_telemetry_def Let_def
    by (auto simp: Inr st1 append_geofence_alert_frame maintenance_block_frame
        telemetry_append_def append_geofence_alert_def
        dest!: chk' split: sum.splits prod.splits option.splits)
qed

lemma fences_have_state_original:
  "fences_have_state st \<Longrightarrow> fences_have_state (snd (original_handle_telemetry e data st))"
  using original_handle_telemetry_fences [of e data st]
  by (auto simp: fences_have_state_def)

lemma fences_have_state_enhanced:
  assumes "fences_have_state st"
  shows "fences_have_state (snd (enhanced_handle_telemetry e data st))"
proof -
  have edge: "fences_have_state (st'\<lparr>edge_processor := x, edge_insights := y\<rparr>) = fences_have_state st'"
    "fences_have_state (st'\<lparr>edge_processor := x\<rparr>) = fences_have_state st'" for st' x y
    by (simp_all add: fences_have_state_def)
  show ?thesis
    unfolding enhanced_handle_telemetry_def Let_def
    using assms
    by (auto simp: edge intro!: fences_have_state_original split: prod.splits sum.splits)
qed

end
